theory Spec2Isabelle
  imports Main "HOL-Library.Sublist"
begin

section \<open>Errors\<close>

text \<open>
  Every error of \<^verbatim>\<open>claude.go\<close> is built by \<^verbatim>\<open>fmt.Errorf\<close> from a fixed format
  and, for the wrapping ones, the message of the cause. One constructor stands for each
  \<^verbatim>\<open>fmt.Errorf\<close> call of the source; the cause is kept as its message.
\<close>

datatype error =
    APIKeyRequired
  | MarshalRequestFailed string
  | CreateRequestFailed string
  | SendRequestFailed string
  | ReadResponseFailed string
  | APIStatusError int string
  | ParseResponseFailed string
  | APIError string
  | EmptyResponse
  | ParseResultFailed string

section \<open>Client construction\<close>

record ClaudeProvider =
  apiKey :: string
  model :: string

definition NewClaudeProvider :: "string \<Rightarrow> error + ClaudeProvider" where
  "NewClaudeProvider key =
     (if key = '''' then Inl APIKeyRequired
      else Inr \<lparr>apiKey = key, model = ''claude-sonnet-4-20250514''\<rparr>)"

definition Name :: "ClaudeProvider \<Rightarrow> string" where
  "Name p = ''claude''"

section \<open>The result shape\<close>

text \<open>
  Modelled from the spec: the declaration of \<^verbatim>\<open>VerificationResult\<close> lives in another
  file of the package. The spec gives its four fields; the percentage is taken as an
  integer.
\<close>

record VerificationResult =
  MatchPercentage :: int
  MatchedItems :: "string list"
  UnmatchedItems :: "string list"
  Notes :: string

section \<open>Regular expressions, leftmost-first\<close>

text \<open>
  The fragment of Go's \<^verbatim>\<open>regexp\<close> syntax that \<^verbatim>\<open>jsonRegex\<close> uses: literals, the
  classes \<^verbatim>\<open>\s\<close>, \<^verbatim>\<open>\S\<close> and their union, a greedy and a lazy star over a class, and
  the two ends of a capturing group. Matching is the backtracking search that defines
  Go's leftmost-first semantics: a greedy star tries one more character before it tries
  the rest of the pattern, a lazy star tries the rest of the pattern first.

  Strings are byte lists. The pattern's literals and \<^verbatim>\<open>\s\<close> are ASCII, and an ASCII byte
  never lies inside a multi-byte UTF-8 sequence, so matching bytes and matching runes
  find the same positions.
\<close>

datatype cclass = PerlSpace | PerlNotSpace | Union cclass cclass

definition is_space :: "char \<Rightarrow> bool" where
  "is_space c \<longleftrightarrow> c = CHR 0x09 \<or> c = CHR 0x0A \<or> c = CHR 0x0C \<or> c = CHR 0x0D \<or> c = CHR 0x20"

fun in_class :: "cclass \<Rightarrow> char \<Rightarrow> bool" where
  "in_class PerlSpace c = is_space c"
| "in_class PerlNotSpace c = (\<not> is_space c)"
| "in_class (Union a b) c = (in_class a c \<or> in_class b c)"

datatype rx_item =
    Lit string
  | StarGreedy cclass
  | StarLazy cclass
  | GroupMark

text \<open>
  \<open>rx_match r s i\<close> matches the pattern \<open>r\<close> at the start of \<open>s\<close>, which begins at
  byte offset \<open>i\<close> of the text. It returns the offsets of the group marks passed, in
  order, followed by the offset where the match ends.
\<close>

fun rx_match :: "rx_item list \<Rightarrow> string \<Rightarrow> nat \<Rightarrow> nat list option" where
  "rx_match [] s i = Some [i]"
| "rx_match (Lit l # r) s i =
     (if prefix l s then rx_match r (drop (length l) s) (i + length l) else None)"
| "rx_match (GroupMark # r) s i = map_option ((#) i) (rx_match r s i)"
| "rx_match (StarGreedy c # r) [] i = rx_match r [] i"
| "rx_match (StarGreedy c # r) (x # xs) i =
     (if in_class c x then
        (case rx_match (StarGreedy c # r) xs (Suc i) of
           Some m \<Rightarrow> Some m
         | None \<Rightarrow> rx_match r (x # xs) i)
      else rx_match r (x # xs) i)"
| "rx_match (StarLazy c # r) [] i = rx_match r [] i"
| "rx_match (StarLazy c # r) (x # xs) i =
     (case rx_match r (x # xs) i of
        Some m \<Rightarrow> Some m
      | None \<Rightarrow> if in_class c x then rx_match (StarLazy c # r) xs (Suc i) else None)"

text \<open>The leftmost match: the first start offset at which the pattern matches.\<close>

fun rx_find :: "rx_item list \<Rightarrow> string \<Rightarrow> nat \<Rightarrow> (nat \<times> nat list) option" where
  "rx_find r [] i = map_option (Pair i) (rx_match r [] i)"
| "rx_find r (x # xs) i =
     (case rx_match r (x # xs) i of
        Some m \<Rightarrow> Some (i, m)
      | None \<Rightarrow> rx_find r xs (Suc i))"

definition substring :: "string \<Rightarrow> nat \<Rightarrow> nat \<Rightarrow> string" where
  "substring s b e = take (e - b) (drop b s)"

text \<open>
  \<^verbatim>\<open>FindStringSubmatch\<close> for a pattern with one group: the whole match and the group's
  text, or the empty slice (Go's \<^verbatim>\<open>nil\<close>) when the pattern matches nowhere.
\<close>

definition FindStringSubmatch :: "rx_item list \<Rightarrow> string \<Rightarrow> string list" where
  "FindStringSubmatch r s =
     (case rx_find r s 0 of
        Some (b, [g1, g2, e]) \<Rightarrow> [substring s b e, substring s g1 g2]
      | Some (b, m) \<Rightarrow> [substring s b (last m)]
      | None \<Rightarrow> [])"

definition jsonRegex :: "rx_item list" where
  "jsonRegex =
     [Lit ''```json'', StarGreedy PerlSpace,
      GroupMark, StarLazy (Union PerlSpace PerlNotSpace), GroupMark,
      StarGreedy PerlSpace, Lit ''```'']"

section \<open>Result extraction\<close>

text \<open>
  \<^verbatim>\<open>json.Unmarshal\<close> into a \<^verbatim>\<open>VerificationResult\<close> is the parameter \<open>unmarshal\<close>: it
  returns the decoded value or the message of the decoder's error.
\<close>

definition parseVerificationResult ::
  "(string \<Rightarrow> string + VerificationResult) \<Rightarrow> string \<Rightarrow> error + VerificationResult" where
  "parseVerificationResult unmarshal text =
     (let matches = FindStringSubmatch jsonRegex text;
          jsonStr = (if length matches \<ge> 2 then matches ! 1 else text)
      in case unmarshal jsonStr of
           Inl err \<Rightarrow> Inl (ParseResultFailed err)
         | Inr result \<Rightarrow> Inr result)"


text \<open>
  The payload that \<^verbatim>\<open>parseVerificationResult\<close> hands to the decoder, the value of its
  variable \<^verbatim>\<open>jsonStr\<close>: the group of the match, or the whole text when the slice of
  matches has fewer than two entries.
\<close>

definition jsonStr :: "string \<Rightarrow> string" where
  "jsonStr text =
     (let matches = FindStringSubmatch jsonRegex text
      in if length matches \<ge> 2 then matches ! 1 else text)"

text \<open>A text without the characters of \<^verbatim>\<open>\s\<close> at its two ends.\<close>

definition trim_space :: "string \<Rightarrow> string" where
  "trim_space s = rev (dropWhile is_space (rev (dropWhile is_space s)))"

section \<open>Prompt construction\<close>

text \<open>
  The template of \<^verbatim>\<open>buildVerificationPrompt\<close> is Japanese text in UTF-8. Its bytes are
  given in hexadecimal wherever they are not plain ASCII letters, digits or punctuation;
  \<open>unhex\<close> reads two hexadecimal digits per byte.
\<close>

definition hexval :: "char \<Rightarrow> nat" where
  "hexval c =
     (let n = of_char c
      in if 48 \<le> n \<and> n \<le> 57 then n - 48
         else if 97 \<le> n \<and> n \<le> 102 then n - 87
         else if 65 \<le> n \<and> n \<le> 70 then n - 55
         else 0)"

fun unhex :: "string \<Rightarrow> string" where
  "unhex (a # b # cs) = char_of (16 * hexval a + hexval b) # unhex cs"
| "unhex _ = []"

definition prompt_part0 :: string where
  "prompt_part0 =
     unhex ''e38182e381aae3819fe381afe382b3e383bce38389e383ace38393e383a5e383bce381ae'' @
     unhex ''e5b082e99680e5aeb6e381a7e38199e38082e4bba5e4b88be381ae'' @
     ''SPEC'' @
     unhex ''efbc88e4bb95e6a798e69bb8efbc89e381a8e5ae9fe99a9be381aee382b3e383bce38389'' @
     unhex ''e38292e6af94e8bc83e38197e381a6e38081e4b880e887b4e5baa6e38292e8a995e4bea1'' @
     unhex ''e38197e381a6e3818fe381a0e38195e38184e380820a0a'' @
     ''## SPEC'' @
     unhex ''efbc88e4bb95e6a798e69bb8efbc890a''"

definition prompt_part1 :: string where
  "prompt_part1 =
     unhex ''0a0a'' @
     ''## '' @
     unhex ''e5ae9fe99a9be381aee382b3e383bce383890a''"

definition prompt_part2 :: string where
  "prompt_part2 =
     unhex ''0a0a'' @
     ''## '' @
     unhex ''e8a995e4bea1e59fbae6ba960ae4bba5e4b88be381aee8a6b3e782b9e381a7e8a995e4be'' @
     unhex ''a1e38197e381a6e3818fe381a0e38195e38184efbc9a0a'' @
     ''1. '' @
     unhex ''e794bbe99da2e6a78be68890'' @
     '': SPEC'' @
     unhex ''e381abe8a898e8bc89e38195e3828ce3819fe8a681e7b4a0e3818ce382b3e383bce38389'' @
     unhex ''e381abe5ad98e59ca8e38199e3828be3818b0a'' @
     ''2. '' @
     unhex ''e78ab6e6858be7aea1e79086'' @
     '': SPEC'' @
     unhex ''e381abe8a898e8bc89e38195e3828ce3819fe78ab6e6858be38284e38395e38383e382af'' @
     unhex ''e3818ce4bdbfe794a8e38195e3828ce381a6e38184e3828be3818b0a'' @
     ''3. '' @
     unhex ''e587a6e79086e38395e383ade383bc'' @
     '': SPEC'' @
     unhex ''e381abe8a898e8bc89e38195e3828ce3819fe587a6e79086e38395e383ade383bce3818c'' @
     unhex ''e382b3e383bce38389e381a7e5ae9fe8a385e38195e3828ce381a6e38184e3828be3818b'' @
     unhex ''0a'' @
     ''4. '' @
     unhex ''e38390e383aae38387e383bce382b7e383a7e383b3'' @
     '': SPEC'' @
     unhex ''e381abe8a898e8bc89e38195e3828ce3819fe38390e383aae38387e383bce382b7e383a7'' @
     unhex ''e383b3e383abe383bce383abe3818ce5ae9fe8a385e38195e3828ce381a6e38184e3828b'' @
     unhex ''e3818b0a'' @
     ''5. '' @
     unhex ''e382a8e383a9e383bce3838fe383b3e38389e383aae383b3e382b0'' @
     '': SPEC'' @
     unhex ''e381abe8a898e8bc89e38195e3828ce3819fe382a8e383a9e383bce382b1e383bce382b9'' @
     unhex ''e3818ce587a6e79086e38195e3828ce381a6e38184e3828be3818b0a0a'' @
     ''## '' @
     unhex ''e587bae58a9be5bda2e5bc8f0ae4bba5e4b88be381ae'' @
     ''JSON'' @
     unhex ''e5bda2e5bc8fe381a7e587bae58a9be38197e381a6e3818fe381a0e38195e38184efbc9a'' @
     unhex ''0a''"

definition prompt_part3 :: string where
  "prompt_part3 =
     ''json'' @
     unhex ''0a'' @
     ''{'' @
     unhex ''0a'' @
     ''  '' @
     unhex ''22'' @
     ''matchPercentage'' @
     unhex ''22'' @
     '': <0-100'' @
     unhex ''e381aee695b0e580a4'' @
     ''>,'' @
     unhex ''0a'' @
     ''  '' @
     unhex ''22'' @
     ''matchedItems'' @
     unhex ''22'' @
     '': ['' @
     unhex ''22e4b880e887b4e38197e381a6e38184e3828be9a085e79bae'' @
     ''1'' @
     unhex ''22'' @
     '', '' @
     unhex ''22e4b880e887b4e38197e381a6e38184e3828be9a085e79bae'' @
     ''2'' @
     unhex ''22'' @
     '', ...],'' @
     unhex ''0a'' @
     ''  '' @
     unhex ''22'' @
     ''unmatchedItems'' @
     unhex ''22'' @
     '': ['' @
     unhex ''22e4b880e887b4e38197e381a6e38184e381aae38184e9a085e79bae'' @
     ''1'' @
     unhex ''22'' @
     '', '' @
     unhex ''22e4b880e887b4e38197e381a6e38184e381aae38184e9a085e79bae'' @
     ''2'' @
     unhex ''22'' @
     '', ...],'' @
     unhex ''0a'' @
     ''  '' @
     unhex ''22'' @
     ''notes'' @
     unhex ''22'' @
     '': '' @
     unhex ''22e8a39ce8b6b3e382b3e383a1e383b3e38388efbc88e69caae5ae9fe8a385e381aee6a9'' @
     unhex ''9fe883bde38284e694b9e59684e782b9e381aae381a9efbc89220a'' @
     ''}'' @
     unhex ''0a''"

definition prompt_part4 :: string where
  "prompt_part4 =
     unhex ''0a0a'' @
     ''JSON'' @
     unhex ''e381aee381bfe38292e587bae58a9be38197e381a6e3818fe381a0e38195e38184e38082''"

text \<open>
  A Go map is iterated in an order the language leaves open. \<open>codeContents\<close> is the list
  of the map's entries in the order the loop visits them.
\<close>

definition codeSection :: "(string \<times> string) list \<Rightarrow> string" where
  "codeSection codeContents =
     concat (map (\<lambda>(filePath, content).
        unhex ''0a'' @ ''### '' @ filePath @ unhex ''0a6060600a'' @ content @ unhex ''0a6060600a'')
        codeContents)"

definition buildVerificationPrompt :: "string \<Rightarrow> (string \<times> string) list \<Rightarrow> string" where
  "buildVerificationPrompt specContent codeContents =
     prompt_part0 @ specContent @ prompt_part1 @ codeSection codeContents @
     prompt_part2 @ ''```'' @ prompt_part3 @ ''```'' @ prompt_part4"

section \<open>The request and the response\<close>

record claudeMessage =
  Role :: string
  MessageContent :: string

record claudeRequest =
  Model :: string
  MaxTokens :: int
  Messages :: "claudeMessage list"

record contentBlock =
  BlockType :: string
  Text :: string

record apiError =
  ErrorType :: string
  Message :: string

text \<open>The pointer field \<^verbatim>\<open>Error\<close> is an option: \<open>None\<close> is Go's \<^verbatim>\<open>nil\<close>.\<close>

record claudeResponse =
  Content :: "contentBlock list"
  Error :: "apiError option"

definition claudeAPIURL :: string where
  "claudeAPIURL = ''https://api.anthropic.com/v1/messages''"

subsection \<open>The HTTP library\<close>

text \<open>
  A request as \<^verbatim>\<open>net/http\<close> holds it. The context is a value of any type \<open>'c\<close>; a
  \<^verbatim>\<open>nil\<close> context is \<open>None\<close>. A header maps a name to its list of values.
\<close>

record 'c http_Request =
  Method :: string
  URL :: string
  Header :: "string \<rightharpoonup> string list"
  RequestBody :: string
  Ctx :: 'c

text \<open>
  A response: the status code and what \<^verbatim>\<open>io.ReadAll\<close> gives on its body, the bytes or
  the message of the read error.
\<close>

record http_Response =
  StatusCode :: int
  Body :: "string + string"

text \<open>
  \<^verbatim>\<open>http.NewRequestWithContext\<close> rejects an invalid method, a \<^verbatim>\<open>nil\<close> context and a
  URL that does not parse. \<^verbatim>\<open>Verify\<close> passes the method \<^verbatim>\<open>POST\<close> and the constant URL,
  which are valid, so the context decides.
\<close>

definition http_NewRequestWithContext ::
  "'c option \<Rightarrow> string \<Rightarrow> string \<Rightarrow> string \<Rightarrow> string + 'c http_Request" where
  "http_NewRequestWithContext ctx method url body =
     (case ctx of
        None \<Rightarrow> Inl ''net/http: nil Context''
      | Some c \<Rightarrow> Inr \<lparr>Method = method, URL = url, Header = Map.empty,
                        RequestBody = body, Ctx = c\<rparr>)"

text \<open>
  \<^verbatim>\<open>Header.Set\<close> stores the value under the canonical form of the name: the first
  letter and every letter after a hyphen in upper case, the others in lower case. A
  name with a byte that may not appear in a header name is stored as it is.
\<close>

definition is_lower :: "char \<Rightarrow> bool" where
  "is_lower c \<longleftrightarrow> (97::nat) \<le> of_char c \<and> of_char c \<le> (122::nat)"

definition is_upper :: "char \<Rightarrow> bool" where
  "is_upper c \<longleftrightarrow> (65::nat) \<le> of_char c \<and> of_char c \<le> (90::nat)"

definition is_digit :: "char \<Rightarrow> bool" where
  "is_digit c \<longleftrightarrow> (48::nat) \<le> of_char c \<and> of_char c \<le> (57::nat)"

definition validHeaderFieldByte :: "char \<Rightarrow> bool" where
  "validHeaderFieldByte c \<longleftrightarrow>
     is_lower c \<or> is_upper c \<or> is_digit c \<or> c \<in> set ''!#$%&*+-.^_`|~'' \<or> c = CHR 0x27"

fun canonical_from :: "bool \<Rightarrow> string \<Rightarrow> string" where
  "canonical_from upper [] = []"
| "canonical_from upper (c # cs) =
     (let c' = (if upper \<and> is_lower c then char_of (of_char c - (32::nat))
                else if \<not> upper \<and> is_upper c then char_of (of_char c + (32::nat))
                else c)
      in c' # canonical_from (c' = CHR ''-'') cs)"

definition CanonicalMIMEHeaderKey :: "string \<Rightarrow> string" where
  "CanonicalMIMEHeaderKey s =
     (if list_all validHeaderFieldByte s then canonical_from True s else s)"

definition Header_Set :: "string \<Rightarrow> string \<Rightarrow> 'c http_Request \<Rightarrow> 'c http_Request" where
  "Header_Set key v r = r\<lparr>Header := (Header r)(CanonicalMIMEHeaderKey key \<mapsto> [v])\<rparr>"

definition Header_Get :: "'c http_Request \<Rightarrow> string \<Rightarrow> string" where
  "Header_Get r key =
     (case Header r (CanonicalMIMEHeaderKey key) of
        Some (v # vs) \<Rightarrow> v
      | _ \<Rightarrow> [])"

section \<open>Verify\<close>

text \<open>
  The library calls whose results \<^verbatim>\<open>Verify\<close> branches on are the fields of a runtime:
  the JSON encoder on a request, the HTTP client's \<^verbatim>\<open>Do\<close> together with the read of
  the response body, and the JSON decoder at the two types it is used at. Each returns
  its value or the message of its error.
\<close>

record 'c runtime =
  json_Marshal :: "claudeRequest \<Rightarrow> string + string"
  client_Do :: "'c http_Request \<Rightarrow> string + http_Response"
  json_Unmarshal_response :: "string \<Rightarrow> string + claudeResponse"
  json_Unmarshal_result :: "string \<Rightarrow> string + VerificationResult"

text \<open>
  \<open>Verify\<close> returns what the Go function returns, the error or the result, and the
  list of the requests it handed to the HTTP client.
\<close>

definition Verify ::
  "'c runtime \<Rightarrow> ClaudeProvider \<Rightarrow> 'c option \<Rightarrow> string \<Rightarrow> (string \<times> string) list
     \<Rightarrow> (error + VerificationResult) \<times> 'c http_Request list" where
  "Verify rt p ctx specContent codeContents =
     (let prompt = buildVerificationPrompt specContent codeContents;
          req = \<lparr>Model = model p, MaxTokens = 2000,
                 Messages = [\<lparr>Role = ''user'', MessageContent = prompt\<rparr>]\<rparr>
      in case json_Marshal rt req of
           Inl err \<Rightarrow> (Inl (MarshalRequestFailed err), [])
         | Inr reqBody \<Rightarrow>
             (case http_NewRequestWithContext ctx ''POST'' claudeAPIURL reqBody of
                Inl err \<Rightarrow> (Inl (CreateRequestFailed err), [])
              | Inr httpReq0 \<Rightarrow>
                  (let httpReq =
                         Header_Set ''anthropic-version'' ''2023-06-01''
                           (Header_Set ''x-api-key'' (apiKey p)
                             (Header_Set ''Content-Type'' ''application/json'' httpReq0))
                   in case client_Do rt httpReq of
                        Inl err \<Rightarrow> (Inl (SendRequestFailed err), [httpReq])
                      | Inr resp \<Rightarrow>
                          (case Body resp of
                             Inl err \<Rightarrow> (Inl (ReadResponseFailed err), [httpReq])
                           | Inr body \<Rightarrow>
                               if StatusCode resp \<noteq> 200
                               then (Inl (APIStatusError (StatusCode resp) body), [httpReq])
                               else
                                 (case json_Unmarshal_response rt body of
                                    Inl err \<Rightarrow> (Inl (ParseResponseFailed err), [httpReq])
                                  | Inr claudeResp \<Rightarrow>
                                      (case Error claudeResp of
                                         Some e \<Rightarrow> (Inl (APIError (Message e)), [httpReq])
                                       | None \<Rightarrow>
                                           if length (Content claudeResp) = 0
                                           then (Inl EmptyResponse, [httpReq])
                                           else (parseVerificationResult
                                                   (json_Unmarshal_result rt)
                                                   (Text (Content claudeResp ! 0)),
                                                 [httpReq])))))))"

text \<open>
  Two values of \<^verbatim>\<open>Verify\<close> by name: \<^verbatim>\<open>req\<close>, the request it encodes, and
  \<^verbatim>\<open>httpReq\<close> after the three calls of \<^verbatim>\<open>Header.Set\<close>, the request it sends.
\<close>

definition Verify_req :: "ClaudeProvider \<Rightarrow> string \<Rightarrow> (string \<times> string) list \<Rightarrow> claudeRequest" where
  "Verify_req p specContent codeContents =
     \<lparr>Model = model p, MaxTokens = 2000,
      Messages = [\<lparr>Role = ''user'',
                   MessageContent = buildVerificationPrompt specContent codeContents\<rparr>]\<rparr>"

definition Verify_httpReq :: "ClaudeProvider \<Rightarrow> 'c \<Rightarrow> string \<Rightarrow> 'c http_Request" where
  "Verify_httpReq p c reqBody =
     Header_Set ''anthropic-version'' ''2023-06-01''
       (Header_Set ''x-api-key'' (apiKey p)
         (Header_Set ''Content-Type'' ''application/json''
           \<lparr>Method = ''POST'', URL = claudeAPIURL, Header = Map.empty,
            RequestBody = reqBody, Ctx = c\<rparr>))"

section \<open>Error messages\<close>

text \<open>\<^verbatim>\<open>%d\<close> of \<^verbatim>\<open>fmt\<close>: the decimal digits, with a minus sign for a negative number.\<close>

fun digits :: "nat \<Rightarrow> string" where
  "digits n =
     (if n < 10 then [char_of (48 + n)]
      else digits (n div 10) @ [char_of (48 + n mod 10)])"

definition Itoa :: "int \<Rightarrow> string" where
  "Itoa n = (if n < 0 then ''-'' @ digits (nat (- n)) else digits (nat n))"

text \<open>The message of an error, as \<^verbatim>\<open>err.Error()\<close> gives it.\<close>

fun error_message :: "error \<Rightarrow> string" where
  "error_message APIKeyRequired = ''API key is required''"
| "error_message (MarshalRequestFailed e) = ''failed to marshal request: '' @ e"
| "error_message (CreateRequestFailed e) = ''failed to create request: '' @ e"
| "error_message (SendRequestFailed e) = ''failed to send request: '' @ e"
| "error_message (ReadResponseFailed e) = ''failed to read response: '' @ e"
| "error_message (APIStatusError code body) =
     ''API error (status '' @ Itoa code @ ''): '' @ body"
| "error_message (ParseResponseFailed e) = ''failed to parse response: '' @ e"
| "error_message (APIError msg) = ''API error: '' @ msg"
| "error_message EmptyResponse = ''empty response from API''"
| "error_message (ParseResultFailed e) = ''failed to parse verification result: '' @ e"

text \<open>\<^verbatim>\<open>strings.Contains\<close>.\<close>

fun Contains :: "string \<Rightarrow> string \<Rightarrow> bool" where
  "Contains [] substr = (substr = [])"
| "Contains (x # xs) substr = (prefix substr (x # xs) \<or> Contains xs substr)"


section \<open>The JSON library\<close>

text \<open>
  Modelled from the spec: \<^verbatim>\<open>encoding/json\<close> is not code of this repository, and the
  struct tags of \<^verbatim>\<open>VerificationResult\<close> are declared outside these sources. The spec
  gives the extracted result shape
  \<^verbatim>\<open>{"matchPercentage": number, "matchedItems": [string...], "unmatchedItems": [string...], "notes": string}\<close>
  and the inbound envelope
  \<^verbatim>\<open>{"content": [{"type": string, "text": string}, ...], "error": {"type": string, "message": string} | absent}\<close>.
  The decoder below reads JSON text (RFC 8259) into those two shapes the way Go's decoder
  does: members it does not know are skipped, names are matched exactly or without regard
  to letter case, a \<^verbatim>\<open>null\<close> leaves a field as it is, and a value of the wrong kind
  is an error. The theorems about \<open>Verify\<close> and \<open>parseVerificationResult\<close> hold for any
  decoder; this one decides the concrete runs.
\<close>

datatype json =
    JNull
  | JBool bool
  | JNumber string
  | JString string
  | JArray "json list"
  | JObject "(string \<times> json) list"

definition is_json_ws :: "char \<Rightarrow> bool" where
  "is_json_ws c \<longleftrightarrow> c = CHR 0x20 \<or> c = CHR 0x09 \<or> c = CHR 0x0D \<or> c = CHR 0x0A"

definition skip_ws :: "string \<Rightarrow> string" where
  "skip_ws s = dropWhile is_json_ws s"

subsection \<open>Numbers\<close>

text \<open>
  A number is an optional minus, then \<^verbatim>\<open>0\<close> or a run of digits not starting with
  \<^verbatim>\<open>0\<close>, then an optional fraction and an optional exponent, each with at least one
  digit. \<open>scan_number\<close> returns the literal and what follows it.
\<close>

definition scan_fraction :: "string \<Rightarrow> (string \<times> string) option" where
  "scan_fraction s =
     (case s of
        c # cs \<Rightarrow>
          if c = CHR ''.'' then
            (if takeWhile is_digit cs = [] then None
             else Some (c # takeWhile is_digit cs, dropWhile is_digit cs))
          else Some ([], s)
      | [] \<Rightarrow> Some ([], s))"

definition scan_exponent :: "string \<Rightarrow> (string \<times> string) option" where
  "scan_exponent s =
     (case s of
        c # cs \<Rightarrow>
          if c = CHR ''e'' \<or> c = CHR ''E'' then
            (let (sign, ds) =
                   (case cs of
                      d # ds' \<Rightarrow> if d = CHR ''+'' \<or> d = CHR ''-'' then ([d], ds') else ([], cs)
                    | [] \<Rightarrow> ([], cs))
             in if takeWhile is_digit ds = [] then None
                else Some (c # sign @ takeWhile is_digit ds, dropWhile is_digit ds))
          else Some ([], s)
      | [] \<Rightarrow> Some ([], s))"

definition scan_int :: "string \<Rightarrow> (string \<times> string) option" where
  "scan_int s =
     (case s of
        c # cs \<Rightarrow>
          if c = CHR ''0'' then Some ([c], cs)
          else if is_digit c then Some (takeWhile is_digit s, dropWhile is_digit s)
          else None
      | [] \<Rightarrow> None)"

definition scan_number :: "string \<Rightarrow> (string \<times> string) option" where
  "scan_number s =
     (let (sign, s1) =
            (case s of
               c # cs \<Rightarrow> if c = CHR ''-'' then ([c], cs) else ([], s)
             | [] \<Rightarrow> ([], s))
      in case scan_int s1 of
           None \<Rightarrow> None
         | Some (ip, s2) \<Rightarrow>
             (case scan_fraction s2 of
                None \<Rightarrow> None
              | Some (fp, s3) \<Rightarrow>
                  (case scan_exponent s3 of
                     None \<Rightarrow> None
                   | Some (ep, s4) \<Rightarrow> Some (sign @ ip @ fp @ ep, s4))))"

subsection \<open>Strings\<close>

text \<open>
  \<open>utf8_width s\<close> is the length of the well-formed UTF-8 sequence at the start of
  \<open>s\<close>, or \<open>0\<close> when there is none; the decoder then writes U+FFFD for one byte.
\<close>

definition byte_in :: "nat \<Rightarrow> nat \<Rightarrow> char \<Rightarrow> bool" where
  "byte_in lo hi c \<longleftrightarrow> lo \<le> of_char c \<and> of_char c \<le> hi"

definition utf8_width :: "string \<Rightarrow> nat" where
  "utf8_width s =
     (case s of
        [] \<Rightarrow> 0
      | b0 # r0 \<Rightarrow>
          if byte_in 0x00 0x7F b0 then 1
          else
            (let lo = (if b0 = CHR 0xE0 then 0xA0 else if b0 = CHR 0xF0 then 0x90 else 0x80);
                 hi = (if b0 = CHR 0xED then 0x9F else if b0 = CHR 0xF4 then 0x8F else 0xBF)
             in case r0 of
                  [] \<Rightarrow> 0
                | b1 # r1 \<Rightarrow>
                    if \<not> byte_in 0xC2 0xF4 b0 \<or> \<not> byte_in lo hi b1 then 0
                    else if byte_in 0xC2 0xDF b0 then 2
                    else
                      (case r1 of
                         [] \<Rightarrow> 0
                       | b2 # r2 \<Rightarrow>
                           if \<not> byte_in 0x80 0xBF b2 then 0
                           else if byte_in 0xE0 0xEF b0 then 3
                           else
                             (case r2 of
                                [] \<Rightarrow> 0
                              | b3 # r3 \<Rightarrow> if byte_in 0x80 0xBF b3 then 4 else 0))))"

definition replacement_char :: string where
  "replacement_char = [CHR 0xEF, CHR 0xBF, CHR 0xBD]"

text \<open>The UTF-8 encoding of a code point below \<^verbatim>\<open>0x110000\<close>.\<close>

definition utf8_encode :: "nat \<Rightarrow> string" where
  "utf8_encode n =
     (if n < 0x80 then [char_of n]
      else if n < 0x800 then [char_of (0xC0 + n div 64), char_of (0x80 + n mod 64)]
      else if n < 0x10000 then
        [char_of (0xE0 + n div 4096), char_of (0x80 + n div 64 mod 64), char_of (0x80 + n mod 64)]
      else
        [char_of (0xF0 + n div 262144), char_of (0x80 + n div 4096 mod 64),
         char_of (0x80 + n div 64 mod 64), char_of (0x80 + n mod 64)])"

definition is_hex :: "char \<Rightarrow> bool" where
  "is_hex c \<longleftrightarrow> is_digit c \<or> byte_in 97 102 c \<or> byte_in 65 70 c"

text \<open>
  \<open>getu4 s\<close> reads \<^verbatim>\<open>\uXXXX\<close> at the start of \<open>s\<close>, as the function of that name in
  Go's decoder does.
\<close>

definition getu4 :: "string \<Rightarrow> nat option" where
  "getu4 s =
     (case s of
        b # u # h1 # h2 # h3 # h4 # r \<Rightarrow>
          if b = CHR 0x5C \<and> u = CHR ''u'' \<and> is_hex h1 \<and> is_hex h2 \<and> is_hex h3 \<and> is_hex h4
          then Some (4096 * hexval h1 + 256 * hexval h2 + 16 * hexval h3 + hexval h4)
          else None
      | _ \<Rightarrow> None)"

text \<open>
  \<open>unescape s\<close> decodes the escape at the start of \<open>s\<close>, whose first byte is the
  backslash: the bytes it stands for and the number of bytes it takes. A high surrogate
  followed by a low one is one code point; a surrogate alone is U+FFFD.
\<close>

definition unescape :: "string \<Rightarrow> (string \<times> nat) option" where
  "unescape s =
     (case s of
        b # e # r \<Rightarrow>
          if e = CHR 0x22 \<or> e = CHR 0x5C \<or> e = CHR ''/'' then Some ([e], 2)
          else if e = CHR ''b'' then Some ([CHR 0x08], 2)
          else if e = CHR ''f'' then Some ([CHR 0x0C], 2)
          else if e = CHR ''n'' then Some ([CHR 0x0A], 2)
          else if e = CHR ''r'' then Some ([CHR 0x0D], 2)
          else if e = CHR ''t'' then Some ([CHR 0x09], 2)
          else if e = CHR ''u'' then
            (case getu4 s of
               None \<Rightarrow> None
             | Some rr \<Rightarrow>
                 if 0xD800 \<le> rr \<and> rr < 0xE000 then
                   (case getu4 (drop 6 s) of
                      Some rr1 \<Rightarrow>
                        if rr < 0xDC00 \<and> 0xDC00 \<le> rr1 \<and> rr1 < 0xE000
                        then Some (utf8_encode ((rr - 0xD800) * 1024 + (rr1 - 0xDC00) + 0x10000), 12)
                        else Some (replacement_char, 6)
                    | None \<Rightarrow> Some (replacement_char, 6))
                 else Some (utf8_encode rr, 6))
          else None
      | _ \<Rightarrow> None)"

text \<open>
  \<open>scan_string s acc\<close> reads a string literal after its opening quote: the decoded
  bytes and what follows the closing quote. A control character inside the literal is an
  error.
\<close>

fun scan_string :: "string \<Rightarrow> string \<Rightarrow> (string \<times> string) option" where
  "scan_string [] acc = None"
| "scan_string (c # cs) acc =
     (if c = CHR 0x22 then Some (acc, cs)
      else if c = CHR 0x5C then
        (case unescape (c # cs) of
           None \<Rightarrow> None
         | Some (bs, n) \<Rightarrow> scan_string (drop (n - 1) cs) (acc @ bs))
      else if byte_in 0x00 0x1F c then None
      else if utf8_width (c # cs) = 0 then scan_string cs (acc @ replacement_char)
      else scan_string (drop (utf8_width (c # cs) - 1) cs) (acc @ take (utf8_width (c # cs)) (c # cs)))"

subsection \<open>Values\<close>

text \<open>
  The depth \<open>d\<close> counts the arrays and
  objects that are open; Go's scanner refuses more than 10000. Every recursive call is
  on a shorter input: the tests \<open>length r < length s\<close> are always true and only make
  that visible.
\<close>

definition maxNestingDepth :: nat where
  "maxNestingDepth = 10000"

function parse_value :: "nat \<Rightarrow> string \<Rightarrow> (json \<times> string) option"
  and parse_elements :: "nat \<Rightarrow> string \<Rightarrow> json list \<Rightarrow> (json list \<times> string) option"
  and parse_members ::
    "nat \<Rightarrow> string \<Rightarrow> (string \<times> json) list \<Rightarrow> ((string \<times> json) list \<times> string) option"
where
  "parse_value d s =
     (case skip_ws s of
        [] \<Rightarrow> None
      | c # cs \<Rightarrow>
          if length cs < length s then
            (if c = CHR ''{'' then
               (if d \<ge> maxNestingDepth then None
                else case skip_ws cs of
                       [] \<Rightarrow> None
                     | c' # cs' \<Rightarrow>
                         if c' = CHR ''}'' then Some (JObject [], cs')
                         else map_option (\<lambda>(ms, r). (JObject ms, r)) (parse_members (Suc d) cs []))
             else if c = CHR ''['' then
               (if d \<ge> maxNestingDepth then None
                else case skip_ws cs of
                       [] \<Rightarrow> None
                     | c' # cs' \<Rightarrow>
                         if c' = CHR '']'' then Some (JArray [], cs')
                         else map_option (\<lambda>(vs, r). (JArray vs, r)) (parse_elements (Suc d) cs []))
             else if c = CHR 0x22 then
               map_option (\<lambda>(str, r). (JString str, r)) (scan_string cs [])
             else if c = CHR ''-'' \<or> is_digit c then
               map_option (\<lambda>(lit, r). (JNumber lit, r)) (scan_number (c # cs))
             else if prefix ''true'' (c # cs) then Some (JBool True, drop 4 (c # cs))
             else if prefix ''false'' (c # cs) then Some (JBool False, drop 5 (c # cs))
             else if prefix ''null'' (c # cs) then Some (JNull, drop 4 (c # cs))
             else None)
          else None)"
| "parse_elements d s acc =
     (case parse_value d s of
        None \<Rightarrow> None
      | Some (v, r) \<Rightarrow>
          if length r < length s then
            (case skip_ws r of
               [] \<Rightarrow> None
             | c # r' \<Rightarrow>
                 if length r' < length r then
                   (if c = CHR '','' then parse_elements d r' (acc @ [v])
                    else if c = CHR '']'' then Some (acc @ [v], r')
                    else None)
                 else None)
          else None)"
| "parse_members d s acc =
     (case skip_ws s of
        [] \<Rightarrow> None
      | q # s1 \<Rightarrow>
          if q = CHR 0x22 \<and> length s1 < length s then
            (case scan_string s1 [] of
               None \<Rightarrow> None
             | Some (k, s2) \<Rightarrow>
                 (case skip_ws s2 of
                    [] \<Rightarrow> None
                  | c # s3 \<Rightarrow>
                      if c = CHR '':'' \<and> length s3 < length s then
                        (case parse_value d s3 of
                           None \<Rightarrow> None
                         | Some (v, r) \<Rightarrow>
                             if length r < length s3 then
                               (case skip_ws r of
                                  [] \<Rightarrow> None
                                | c' # r' \<Rightarrow>
                                    if length r' < length r then
                                      (if c' = CHR '','' then parse_members d r' (acc @ [(k, v)])
                                       else if c' = CHR ''}'' then Some (acc @ [(k, v)], r')
                                       else None)
                                    else None)
                             else None)
                      else None))
          else None)"
  by pat_completeness auto
termination
  by (relation "measure (\<lambda>x. case x of
        Inl (d, s) \<Rightarrow> 2 * length s
      | Inr (Inl (d, s, acc)) \<Rightarrow> 2 * length s + 1
      | Inr (Inr (d, s, acc)) \<Rightarrow> 2 * length s + 1)") auto

text \<open>A document is one value with nothing but white space after it.\<close>

definition parse_json :: "string \<Rightarrow> json option" where
  "parse_json s =
     (case parse_value 0 s of
        None \<Rightarrow> None
      | Some (v, r) \<Rightarrow> if skip_ws r = [] then Some v else None)"


subsection \<open>Decoding into the two shapes\<close>

text \<open>
  Go matches a member name to a field exactly, or else after folding: ASCII letters to
  upper case, and the two other characters that fold to an ASCII letter, U+017F to
  \<^verbatim>\<open>S\<close> and U+212A to \<^verbatim>\<open>K\<close>.
\<close>

fun fold_name :: "string \<Rightarrow> string" where
  "fold_name [] = []"
| "fold_name (c # cs) =
     (if is_lower c then char_of (of_char c - (32::nat)) # fold_name cs
      else if prefix [CHR 0xC5, CHR 0xBF] (c # cs) then CHR ''S'' # fold_name (drop 1 cs)
      else if prefix [CHR 0xE2, CHR 0x84, CHR 0xAA] (c # cs) then CHR ''K'' # fold_name (drop 2 cs)
      else c # fold_name cs)"

definition names_field :: "string \<Rightarrow> string \<Rightarrow> bool" where
  "names_field key field \<longleftrightarrow> key = field \<or> fold_name key = fold_name field"

text \<open>
  The members of an object are decoded in their order onto the value built so far, so
  the last of repeated members decides. \<open>None\<close> is a value of the wrong kind.
\<close>

fun decode_members :: "('a \<Rightarrow> string \<Rightarrow> json \<Rightarrow> 'a option) \<Rightarrow> (string \<times> json) list \<Rightarrow> 'a \<Rightarrow> 'a option" where
  "decode_members f [] a = Some a"
| "decode_members f ((k, v) # ms) a =
     (case f a k v of
        None \<Rightarrow> None
      | Some a' \<Rightarrow> decode_members f ms a')"

definition decode_string :: "json \<Rightarrow> string \<Rightarrow> string option" where
  "decode_string v old =
     (case v of
        JString s \<Rightarrow> Some s
      | JNull \<Rightarrow> Some old
      | _ \<Rightarrow> None)"

text \<open>
  An integer field takes a number literal with neither fraction nor exponent that fits
  64 bits.
\<close>

definition digits_value :: "string \<Rightarrow> nat" where
  "digits_value ds = foldl (\<lambda>n c. 10 * n + (of_char c - 48)) 0 ds"

definition parse_int64 :: "string \<Rightarrow> int option" where
  "parse_int64 lit =
     (let (neg, ds) =
            (case lit of
               c # cs \<Rightarrow> if c = CHR ''-'' then (True, cs) else (False, lit)
             | [] \<Rightarrow> (False, lit));
          n = (if neg then - int (digits_value ds) else int (digits_value ds))
      in if ds \<noteq> [] \<and> list_all is_digit ds
            \<and> - 9223372036854775808 \<le> n \<and> n \<le> 9223372036854775807
         then Some n else None)"

definition decode_int :: "json \<Rightarrow> int \<Rightarrow> int option" where
  "decode_int v old =
     (case v of
        JNumber lit \<Rightarrow> parse_int64 lit
      | JNull \<Rightarrow> Some old
      | _ \<Rightarrow> None)"

text \<open>
  The elements of an array are decoded onto the elements the slice had before, as far as
  there are any: a \<^verbatim>\<open>null\<close> element keeps what was there. \<open>old\<close> is that memory.
\<close>

fun decode_elements :: "(json \<Rightarrow> 'a \<Rightarrow> 'a option) \<Rightarrow> 'a \<Rightarrow> json list \<Rightarrow> 'a list \<Rightarrow> 'a list option" where
  "decode_elements f z [] old = Some []"
| "decode_elements f z (v # vs) old =
     (case f v (case old of [] \<Rightarrow> z | x # xs \<Rightarrow> x) of
        None \<Rightarrow> None
      | Some y \<Rightarrow> map_option ((#) y) (decode_elements f z vs (tl old)))"

text \<open>
  A slice is its elements and the memory behind them that an earlier, longer array left.
  An empty array and \<^verbatim>\<open>null\<close> give a fresh slice.
\<close>

definition decode_slice ::
  "(json \<Rightarrow> 'a \<Rightarrow> 'a option) \<Rightarrow> 'a \<Rightarrow> json \<Rightarrow> 'a list \<times> 'a list \<Rightarrow> ('a list \<times> 'a list) option" where
  "decode_slice f z v old =
     (case v of
        JArray vs \<Rightarrow>
          (if vs = [] then Some ([], [])
           else map_option (\<lambda>ys. (ys, drop (length vs) (fst old @ snd old)))
                  (decode_elements f z vs (fst old @ snd old)))
      | JNull \<Rightarrow> Some ([], [])
      | _ \<Rightarrow> None)"

record result_fields =
  fMatchPercentage :: int
  fMatchedItems :: "string list \<times> string list"
  fUnmatchedItems :: "string list \<times> string list"
  fNotes :: string

definition decode_result_field :: "result_fields \<Rightarrow> string \<Rightarrow> json \<Rightarrow> result_fields option" where
  "decode_result_field a k v =
     (if names_field k ''matchPercentage'' then
        map_option (\<lambda>x. a\<lparr>fMatchPercentage := x\<rparr>) (decode_int v (fMatchPercentage a))
      else if names_field k ''matchedItems'' then
        map_option (\<lambda>x. a\<lparr>fMatchedItems := x\<rparr>) (decode_slice decode_string [] v (fMatchedItems a))
      else if names_field k ''unmatchedItems'' then
        map_option (\<lambda>x. a\<lparr>fUnmatchedItems := x\<rparr>) (decode_slice decode_string [] v (fUnmatchedItems a))
      else if names_field k ''notes'' then
        map_option (\<lambda>x. a\<lparr>fNotes := x\<rparr>) (decode_string v (fNotes a))
      else Some a)"

text \<open>
  The messages stand for the decoder's own, which also give the position or the types.
\<close>

definition syntax_error :: string where
  "syntax_error = ''invalid JSON''"

definition type_error :: string where
  "type_error = ''json: cannot unmarshal value into Go value''"

definition Unmarshal_VerificationResult :: "string \<Rightarrow> string + VerificationResult" where
  "Unmarshal_VerificationResult s =
     (let zero = \<lparr>fMatchPercentage = 0, fMatchedItems = ([], []), fUnmatchedItems = ([], []),
                  fNotes = []\<rparr>;
          done = (\<lambda>a. \<lparr>MatchPercentage = fMatchPercentage a, MatchedItems = fst (fMatchedItems a),
                       UnmatchedItems = fst (fUnmatchedItems a), Notes = fNotes a\<rparr>)
      in case parse_json s of
           None \<Rightarrow> Inl syntax_error
         | Some JNull \<Rightarrow> Inr (done zero)
         | Some (JObject ms) \<Rightarrow>
             (case decode_members decode_result_field ms zero of
                None \<Rightarrow> Inl type_error
              | Some a \<Rightarrow> Inr (done a))
         | Some _ \<Rightarrow> Inl type_error)"

definition decode_block_field :: "contentBlock \<Rightarrow> string \<Rightarrow> json \<Rightarrow> contentBlock option" where
  "decode_block_field a k v =
     (if names_field k ''type'' then map_option (\<lambda>x. a\<lparr>BlockType := x\<rparr>) (decode_string v (BlockType a))
      else if names_field k ''text'' then map_option (\<lambda>x. a\<lparr>Text := x\<rparr>) (decode_string v (Text a))
      else Some a)"

definition decode_block :: "json \<Rightarrow> contentBlock \<Rightarrow> contentBlock option" where
  "decode_block v old =
     (case v of
        JObject ms \<Rightarrow> decode_members decode_block_field ms old
      | JNull \<Rightarrow> Some old
      | _ \<Rightarrow> None)"

definition decode_error_field :: "apiError \<Rightarrow> string \<Rightarrow> json \<Rightarrow> apiError option" where
  "decode_error_field a k v =
     (if names_field k ''type'' then map_option (\<lambda>x. a\<lparr>ErrorType := x\<rparr>) (decode_string v (ErrorType a))
      else if names_field k ''message'' then map_option (\<lambda>x. a\<lparr>Message := x\<rparr>) (decode_string v (Message a))
      else Some a)"

text \<open>A pointer field: \<^verbatim>\<open>null\<close> makes it \<^verbatim>\<open>nil\<close>, an object fills the struct it points to.\<close>

definition decode_error_pointer :: "json \<Rightarrow> apiError option \<Rightarrow> apiError option option" where
  "decode_error_pointer v old =
     (case v of
        JObject ms \<Rightarrow>
          map_option Some
            (decode_members decode_error_field ms
               (case old of None \<Rightarrow> \<lparr>ErrorType = [], Message = []\<rparr> | Some e \<Rightarrow> e))
      | JNull \<Rightarrow> Some None
      | _ \<Rightarrow> None)"

record response_fields =
  fContent :: "contentBlock list \<times> contentBlock list"
  fError :: "apiError option"

definition decode_response_field :: "response_fields \<Rightarrow> string \<Rightarrow> json \<Rightarrow> response_fields option" where
  "decode_response_field a k v =
     (if names_field k ''content'' then
        map_option (\<lambda>x. a\<lparr>fContent := x\<rparr>)
          (decode_slice decode_block \<lparr>BlockType = [], Text = []\<rparr> v (fContent a))
      else if names_field k ''error'' then
        map_option (\<lambda>x. a\<lparr>fError := x\<rparr>) (decode_error_pointer v (fError a))
      else Some a)"

definition Unmarshal_claudeResponse :: "string \<Rightarrow> string + claudeResponse" where
  "Unmarshal_claudeResponse s =
     (let zero = \<lparr>fContent = ([], []), fError = None\<rparr>;
          done = (\<lambda>a. \<lparr>Content = fst (fContent a), Error = fError a\<rparr>)
      in case parse_json s of
           None \<Rightarrow> Inl syntax_error
         | Some JNull \<Rightarrow> Inr (done zero)
         | Some (JObject ms) \<Rightarrow>
             (case decode_members decode_response_field ms zero of
                None \<Rightarrow> Inl type_error
              | Some a \<Rightarrow> Inr (done a))
         | Some _ \<Rightarrow> Inl type_error)"

subsection \<open>Encoding the request\<close>

text \<open>
  Modelled from the spec: the body is
  \<^verbatim>\<open>{"model": "<fixed model id>", "max_tokens": 2000, "messages": [{"role": "user", "content": "<rendered prompt>"}]}\<close>,
  written without spaces. In a string the quote, the backslash, the control characters
  and \<^verbatim>\<open><\<close>, \<^verbatim>\<open>>\<close> and \<^verbatim>\<open>&\<close> are escaped, a byte that is not UTF-8 becomes
  the escape of U+FFFD, and U+2028 and U+2029 are escaped.
\<close>

definition hexdigit :: "nat \<Rightarrow> char" where
  "hexdigit n = (if n < 10 then char_of (48 + n) else char_of (87 + n))"

fun quote_bytes :: "string \<Rightarrow> string" where
  "quote_bytes [] = []"
| "quote_bytes (c # cs) =
     (if c = CHR 0x22 \<or> c = CHR 0x5C then [CHR 0x5C, c] @ quote_bytes cs
      else if c = CHR 0x08 then [CHR 0x5C, CHR ''b''] @ quote_bytes cs
      else if c = CHR 0x0C then [CHR 0x5C, CHR ''f''] @ quote_bytes cs
      else if c = CHR 0x0A then [CHR 0x5C, CHR ''n''] @ quote_bytes cs
      else if c = CHR 0x0D then [CHR 0x5C, CHR ''r''] @ quote_bytes cs
      else if c = CHR 0x09 then [CHR 0x5C, CHR ''t''] @ quote_bytes cs
      else if byte_in 0x00 0x1F c \<or> c = CHR ''<'' \<or> c = CHR ''>'' \<or> c = CHR ''&'' then
        [CHR 0x5C, CHR ''u'', CHR ''0'', CHR ''0'',
         hexdigit (of_char c div 16), hexdigit (of_char c mod 16)] @ quote_bytes cs
      else if utf8_width (c # cs) = 0 then [CHR 0x5C] @ ''ufffd'' @ quote_bytes cs
      else if prefix [CHR 0xE2, CHR 0x80, CHR 0xA8] (c # cs) then
        [CHR 0x5C] @ ''u2028'' @ quote_bytes (drop 2 cs)
      else if prefix [CHR 0xE2, CHR 0x80, CHR 0xA9] (c # cs) then
        [CHR 0x5C] @ ''u2029'' @ quote_bytes (drop 2 cs)
      else take (utf8_width (c # cs)) (c # cs) @ quote_bytes (drop (utf8_width (c # cs) - 1) cs))"

definition quote :: "string \<Rightarrow> string" where
  "quote s = [CHR 0x22] @ quote_bytes s @ [CHR 0x22]"

definition Marshal_claudeMessage :: "claudeMessage \<Rightarrow> string" where
  "Marshal_claudeMessage m =
     ''{'' @ quote ''role'' @ '':'' @ quote (Role m) @ '','' @
     quote ''content'' @ '':'' @ quote (MessageContent m) @ ''}''"

fun join :: "string \<Rightarrow> string list \<Rightarrow> string" where
  "join sep [] = []"
| "join sep [x] = x"
| "join sep (x # y # ys) = x @ sep @ join sep (y # ys)"

definition Marshal_claudeRequest :: "claudeRequest \<Rightarrow> string" where
  "Marshal_claudeRequest r =
     ''{'' @ quote ''model'' @ '':'' @ quote (Model r) @ '','' @
     quote ''max_tokens'' @ '':'' @ Itoa (MaxTokens r) @ '','' @
     quote ''messages'' @ '':['' @ join '','' (map Marshal_claudeMessage (Messages r)) @ '']}''"

subsection \<open>A runtime with a canned server\<close>

text \<open>
  The runtime of the concrete runs: the encoder and the decoders above, and an HTTP client
  that answers every request with the response \<open>reply\<close>.
\<close>

definition canned :: "http_Response \<Rightarrow> unit runtime" where
  "canned reply =
     \<lparr>json_Marshal = (\<lambda>req. Inr (Marshal_claudeRequest req)),
      client_Do = (\<lambda>r. Inr reply),
      json_Unmarshal_response = Unmarshal_claudeResponse,
      json_Unmarshal_result = Unmarshal_VerificationResult\<rparr>"

subsection \<open>Sample data\<close>

text \<open>
  A provider as \<open>NewClaudeProvider\<close> builds it, a response with a body that was read
  in full, the body of a response with one text block, a result in JSON, and a text
  inside a fence with the label \<^verbatim>\<open>json\<close>.
\<close>

definition sample_provider :: ClaudeProvider where
  "sample_provider = \<lparr>apiKey = ''sk-test'', model = ''claude-sonnet-4-20250514''\<rparr>"

definition sample_request :: "unit http_Request" where
  "sample_request =
     Verify_httpReq sample_provider ()
       (Marshal_claudeRequest (Verify_req sample_provider ''spec'' []))"

definition reply :: "int \<Rightarrow> string \<Rightarrow> http_Response" where
  "reply code body = \<lparr>StatusCode = code, Body = Inr body\<rparr>"

definition envelope :: "string \<Rightarrow> string" where
  "envelope t = ''{\"content\":[{\"type\":\"text\",\"text\":'' @ quote t @ ''}]}''"

definition result_json :: string where
  "result_json =
     ''{\"matchPercentage\":80,\"matchedItems\":[\"login\"],'' @
     ''\"unmatchedItems\":[\"logout\"],\"notes\":\"ok\"}''"

definition sample_result :: VerificationResult where
  "sample_result =
     \<lparr>MatchPercentage = 80, MatchedItems = [''login''], UnmatchedItems = [''logout''],
      Notes = ''ok''\<rparr>"

definition fence_json :: "string \<Rightarrow> string" where
  "fence_json s = ''```json'' @ [CHR 0x0A] @ s @ [CHR 0x0A] @ ''```''"

text \<open>
  Bodies and texts of particular runs: an envelope with no content, one with the error
  field, a result cut short, a result with a percentage above 100, a result with white
  space around it, a result in a fence with the label \<^verbatim>\<open>json5\<close>, one in a fence
  with no label, and a result whose notes speak of a fence.
\<close>

definition empty_body :: string where
  "empty_body = ''{\"content\":[]}''"


definition truncated_json :: string where
  "truncated_json = ''{\"matchPercentage\":''"


definition padded_json :: string where
  "padded_json = '' '' @ result_json @ [CHR 0x0A]"




section \<open>Properties of client construction\<close>

text \<open>
  C4. Construction with the empty credential fails with the configuration error and
  gives no client. Construction with any other credential succeeds, and the client holds
  that credential and the fixed model identifier.
\<close>

theorem NewClaudeProvider_credential:
  "NewClaudeProvider '''' = Inl APIKeyRequired \<and>
   (key \<noteq> '''' \<longrightarrow>
      NewClaudeProvider key = Inr \<lparr>apiKey = key, model = ''claude-sonnet-4-20250514''\<rparr>)"
  by (simp add: NewClaudeProvider_def)

theorem NewClaudeProvider_credential_witness:
  "''sk-test'' \<noteq> '''' \<and>
   NewClaudeProvider '''' = Inl APIKeyRequired \<and>
   NewClaudeProvider ''sk-test'' =
     Inr \<lparr>apiKey = ''sk-test'', model = ''claude-sonnet-4-20250514''\<rparr>"
  using NewClaudeProvider_credential [of "''sk-test''"] by simp

section \<open>Substrings\<close>

lemma Contains_prefix: "prefix t s \<Longrightarrow> Contains s t"
  by (cases s) simp_all

lemma Contains_appendI: "Contains s t \<Longrightarrow> Contains (a @ s) t"
  by (induction a) simp_all

lemma Contains_appendR: "Contains s t \<Longrightarrow> Contains (s @ b) t"
proof (induction s)
  case Nil
  then show ?case by (simp add: Contains_prefix)
next
  case (Cons x xs)
  then show ?case using prefix_prefix [of t "x # xs" b] by auto
qed

lemma Contains_drop: "prefix t (drop k s) \<Longrightarrow> Contains s t"
proof (induction s arbitrary: k)
  case Nil
  then show ?case by simp
next
  case (Cons x xs)
  then show ?case by (cases k) auto
qed

lemma Contains_shorter: "Contains s (a @ b) \<Longrightarrow> Contains s a"
proof (induction s)
  case Nil
  then show ?case by simp
next
  case (Cons x xs)
  then show ?case by (auto dest: append_prefixD)
qed

lemma Contains_append: "Contains (a @ s @ b) s"
  by (induction a) (simp_all add: Contains_prefix)

section \<open>What the pattern captures\<close>

subsection \<open>The pattern, piece by piece\<close>

lemma not_space_backtick: "\<not> is_space (CHR 0x60)"
  by (simp add: is_space_def)

lemma rx_tail:
  "rx_match [StarGreedy PerlSpace, Lit ''```''] s i =
     (if prefix ''```'' (dropWhile is_space s)
      then Some [i + length (takeWhile is_space s) + 3] else None)"
proof (induction s arbitrary: i)
  case Nil
  then show ?case by simp
next
  case (Cons x xs)
  then show ?case by (auto simp: not_space_backtick)
qed

lemma rx_lazy_skip:
  "\<forall>k<n. \<not> prefix ''```'' (dropWhile is_space (drop k s)) \<Longrightarrow> n \<le> length s \<Longrightarrow>
   rx_match (StarLazy (Union PerlSpace PerlNotSpace) # GroupMark #
             [StarGreedy PerlSpace, Lit ''```'']) s i =
   rx_match (StarLazy (Union PerlSpace PerlNotSpace) # GroupMark #
             [StarGreedy PerlSpace, Lit ''```'']) (drop n s) (i + n)"
proof (induction s arbitrary: n i)
  case Nil
  then show ?case by simp
next
  case (Cons x xs)
  show ?case
  proof (cases n)
    case 0
    then show ?thesis by simp
  next
    case (Suc n')
    from Cons.prems(1) Suc have h0: "\<not> prefix ''```'' (dropWhile is_space (x # xs))"
      by (metis drop0 zero_less_Suc)
    from Cons.prems(1) Suc have hk: "\<forall>k<n'. \<not> prefix ''```'' (dropWhile is_space (drop k xs))"
      by (metis Suc_less_eq drop_Suc_Cons)
    from Cons.prems(2) Suc have len: "n' \<le> length xs" by simp
    have "rx_match (GroupMark # [StarGreedy PerlSpace, Lit ''```'']) (x # xs) i = None"
      using h0 by (simp only: rx_match.simps(3) rx_tail) simp
    then have "rx_match (StarLazy (Union PerlSpace PerlNotSpace) # GroupMark #
             [StarGreedy PerlSpace, Lit ''```'']) (x # xs) i =
        rx_match (StarLazy (Union PerlSpace PerlNotSpace) # GroupMark #
             [StarGreedy PerlSpace, Lit ''```'']) xs (Suc i)"
      by (simp only: rx_match.simps(7)) simp
    also have "\<dots> = rx_match (StarLazy (Union PerlSpace PerlNotSpace) # GroupMark #
             [StarGreedy PerlSpace, Lit ''```'']) (drop n' xs) (Suc i + n')"
      by (rule Cons.IH [OF hk len])
    finally show ?thesis using Suc by simp
  qed
qed

lemma rx_lazy_hit:
  assumes "prefix ''```'' (dropWhile is_space s)"
  shows "rx_match (StarLazy (Union PerlSpace PerlNotSpace) # GroupMark #
             [StarGreedy PerlSpace, Lit ''```'']) s i =
         Some [i, i + length (takeWhile is_space s) + 3]"
proof (cases s)
  case Nil
  with assms show ?thesis by simp
next
  case (Cons x xs)
  have "rx_match (GroupMark # [StarGreedy PerlSpace, Lit ''```'']) (x # xs) i =
          Some [i, i + length (takeWhile is_space (x # xs)) + 3]"
    using assms Cons by (simp only: rx_match.simps(3) rx_tail) simp
  then show ?thesis unfolding Cons by (simp only: rx_match.simps(7)) simp
qed

lemma rx_greedy_all:
  "list_all is_space ws \<Longrightarrow>
   rx_match (StarGreedy PerlSpace # r) s (i + length ws) = Some m \<Longrightarrow>
   rx_match (StarGreedy PerlSpace # r) (ws @ s) i = Some m"
  by (induction ws arbitrary: i) simp_all

lemma rx_greedy_none:
  "s = [] \<or> \<not> is_space (hd s) \<Longrightarrow> rx_match (StarGreedy PerlSpace # r) s i = rx_match r s i"
  by (cases s) simp_all

lemma rx_find_skip:
  "\<forall>k<n. rx_match r (drop k s) (i + k) = None \<Longrightarrow> n \<le> length s \<Longrightarrow>
   rx_find r s i = rx_find r (drop n s) (i + n)"
proof (induction s arbitrary: n i)
  case Nil
  then show ?case by simp
next
  case (Cons x xs)
  show ?case
  proof (cases n)
    case 0
    then show ?thesis by simp
  next
    case (Suc n')
    from Cons.prems(1) Suc have h0: "rx_match r (x # xs) i = None"
      by (metis add.right_neutral drop0 zero_less_Suc)
    have hk: "\<forall>k<n'. rx_match r (drop k xs) (Suc i + k) = None"
    proof (intro allI impI)
      fix k assume "k < n'"
      with Cons.prems(1) Suc have "rx_match r (drop (Suc k) (x # xs)) (i + Suc k) = None"
        by (metis Suc_less_eq)
      then show "rx_match r (drop k xs) (Suc i + k) = None" by simp
    qed
    from Cons.prems(2) Suc have len: "n' \<le> length xs" by simp
    show ?thesis using h0 Cons.IH [OF hk len] Suc by simp
  qed
qed

lemma rx_find_hit: "rx_match r s i = Some m \<Longrightarrow> rx_find r s i = Some (i, m)"
  by (cases s) simp_all

lemma rx_find_absent: "\<not> Contains s l \<Longrightarrow> rx_find (Lit l # r) s i = None"
  by (induction s arbitrary: i) auto

lemma no_early_close:
  assumes np: "\<not> Contains payload ''```''"
    and ls: "\<not> is_space (last payload)"
    and bt: "ws2 = [] \<longrightarrow> last payload \<noteq> CHR 0x60"
    and w2: "list_all is_space ws2"
    and k: "k < length payload"
  shows "\<not> prefix ''```'' (dropWhile is_space (drop k payload @ ws2 @ ''```'' @ post))"
proof
  assume a: "prefix ''```'' (dropWhile is_space (drop k payload @ ws2 @ ''```'' @ post))"
  define q where "q = drop k payload"
  define q' where "q' = dropWhile is_space q"
  define rest where "rest = ws2 @ ''```'' @ post"
  from k have qne: "q \<noteq> []" by (simp add: q_def)
  from k have lq: "last q = last payload" by (simp add: q_def)
  from qne have mem: "last q \<in> set q" by (rule last_in_set)
  from ls lq have nsp: "\<not> is_space (last q)" by simp
  from mem nsp have dw: "dropWhile is_space (q @ rest) = q' @ rest"
    unfolding q'_def by (rule dropWhile_append1)
  from mem nsp have q'ne: "q' \<noteq> []" by (auto simp: q'_def dropWhile_eq_Nil_conv)
  have "q = takeWhile is_space q @ q'" by (simp add: q'_def)
  with q'ne lq have lq': "last q' = last payload" by (metis last_appendR)
  have pay: "payload = (take k payload @ takeWhile is_space q) @ q'"
    by (simp add: q_def q'_def)
  from a have "prefix ''```'' (q' @ rest)"
    unfolding q_def [symmetric] rest_def [symmetric] dw .
  then consider (inside) "prefix ''```'' q'"
    | (across) us where "''```'' = q' @ us" and "prefix us rest" and "us \<noteq> []"
    unfolding prefix_append by (metis append_Nil2 prefix_order.order_refl)
  then show False
  proof cases
    case inside
    then have "Contains ((take k payload @ takeWhile is_space q) @ q') ''```''"
      by (intro Contains_appendI Contains_prefix)
    with pay np show False by simp
  next
    case across
    from q'ne have "last q' \<in> set q'" by simp
    then have "last q' \<in> set ''```''" unfolding across(1) by simp
    then have l: "last q' = CHR 0x60" by simp
    from across(3) have "hd us \<in> set us" by simp
    then have "hd us \<in> set ''```''" unfolding across(1) by simp
    then have h: "hd us = CHR 0x60" by simp
    from across(2,3) have r: "rest \<noteq> []" "hd rest = hd us" by (auto simp: prefix_def)
    show False
    proof (cases ws2)
      case Nil
      with bt lq' l show False by simp
    next
      case (Cons w ws)
      then have "hd rest = w" by (simp add: rest_def)
      moreover from Cons w2 have "is_space w" by simp
      ultimately show False using r h not_space_backtick by simp
    qed
  qed
qed

lemma rx_capture:
  assumes first: "\<forall>k<length pre. \<not> prefix ''```json''
        (drop k (pre @ ''```json'' @ ws1 @ payload @ ws2 @ ''```'' @ post))"
    and w1: "list_all is_space ws1"
    and w2: "list_all is_space ws2"
    and hd: "\<not> is_space (hd (payload @ ws2 @ ''```''))"
    and close: "\<forall>k<length payload. \<not> prefix ''```''
        (dropWhile is_space (drop k payload @ ws2 @ ''```'' @ post))"
  shows "rx_find jsonRegex (pre @ ''```json'' @ ws1 @ payload @ ws2 @ ''```'' @ post) 0 =
     Some (length pre,
       [length (pre @ ''```json'' @ ws1),
        length (pre @ ''```json'' @ ws1) + length payload,
        length pre + length (''```json'' @ ws1 @ payload @ ws2 @ ''```'')])"
proof -
  define s1 where "s1 = payload @ ws2 @ ''```'' @ post"
  define g1 where "g1 = length pre + 7 + length ws1"
  define m where "m = [g1, g1 + length payload, g1 + length payload + length ws2 + 3]"
  define R2 where "R2 = StarLazy (Union PerlSpace PerlNotSpace) # GroupMark #
             [StarGreedy PerlSpace, Lit ''```'']"
  have sp2: "\<And>x. x \<in> set ws2 \<Longrightarrow> is_space x"
    using w2 by (simp add: list_all_iff)
  have dwt: "dropWhile is_space (ws2 @ ''```'' @ post) = ''```'' @ post"
    using sp2 by (simp add: dropWhile_append2 not_space_backtick)
  have twt: "takeWhile is_space (ws2 @ ''```'' @ post) = ws2"
    using sp2 by (simp add: takeWhile_append2 not_space_backtick)
  have "\<forall>k<length payload. \<not> prefix ''```'' (dropWhile is_space (drop k s1))"
    using close by (simp add: s1_def)
  then have "rx_match R2 s1 g1 = rx_match R2 (drop (length payload) s1) (g1 + length payload)"
    unfolding R2_def by (rule rx_lazy_skip) (simp add: s1_def)
  also have "drop (length payload) s1 = ws2 @ ''```'' @ post"
    by (simp add: s1_def)
  also have "rx_match R2 (ws2 @ ''```'' @ post) (g1 + length payload) =
      Some [g1 + length payload, g1 + length payload + length ws2 + 3]"
  proof -
    have "prefix ''```'' (dropWhile is_space (ws2 @ ''```'' @ post))"
      unfolding dwt by simp
    then have "rx_match R2 (ws2 @ ''```'' @ post) (g1 + length payload) =
      Some [g1 + length payload,
            g1 + length payload + length (takeWhile is_space (ws2 @ ''```'' @ post)) + 3]"
      unfolding R2_def by (rule rx_lazy_hit)
    then show ?thesis unfolding twt .
  qed
  finally have lazy: "rx_match R2 s1 g1 =
      Some [g1 + length payload, g1 + length payload + length ws2 + 3]" .
  have R1: "rx_match (GroupMark # R2) s1 g1 = Some m"
    by (simp add: lazy m_def)
  have "hd s1 = hd (payload @ ws2 @ ''```'')"
    by (simp add: s1_def hd_append)
  with hd have "s1 = [] \<or> \<not> is_space (hd s1)" by simp
  then have "rx_match (StarGreedy PerlSpace # GroupMark # R2) s1 g1 = Some m"
    using R1 by (simp only: rx_greedy_none)
  then have "rx_match (StarGreedy PerlSpace # GroupMark # R2) s1 ((length pre + 7) + length ws1)
      = Some m"
    by (simp add: g1_def)
  with w1 have R0: "rx_match (StarGreedy PerlSpace # GroupMark # R2) (ws1 @ s1) (length pre + 7)
      = Some m"
    by (rule rx_greedy_all)
  have "rx_match jsonRegex (''```json'' @ ws1 @ s1) (length pre) =
      rx_match (StarGreedy PerlSpace # GroupMark # R2) (ws1 @ s1) (length pre + length ''```json'')"
    by (simp add: jsonRegex_def R2_def)
  also have "length pre + length ''```json'' = length pre + 7"
    by simp
  finally have whole: "rx_match jsonRegex (''```json'' @ ws1 @ s1) (length pre) = Some m"
    using R0 by simp
  have skip: "\<forall>k<length pre. rx_match jsonRegex
       (drop k (pre @ ''```json'' @ ws1 @ payload @ ws2 @ ''```'' @ post)) (0 + k) = None"
    using first by (simp add: jsonRegex_def)
  have "rx_find jsonRegex (pre @ ''```json'' @ ws1 @ payload @ ws2 @ ''```'' @ post) 0 =
      rx_find jsonRegex (drop (length pre)
        (pre @ ''```json'' @ ws1 @ payload @ ws2 @ ''```'' @ post)) (0 + length pre)"
    using skip by (rule rx_find_skip) simp
  also have "\<dots> = rx_find jsonRegex (''```json'' @ ws1 @ s1) (length pre)"
    by (simp add: s1_def)
  also have "\<dots> = Some (length pre, m)"
    using whole by (rule rx_find_hit)
  finally show ?thesis by (simp add: m_def g1_def)
qed

lemma substring_mid: "substring (a @ b @ c) (length a) (length a + length b) = b"
  by (simp add: substring_def)

lemma FindStringSubmatch_fence:
  assumes "\<forall>k<length pre. \<not> prefix ''```json''
        (drop k (pre @ ''```json'' @ ws1 @ payload @ ws2 @ ''```'' @ post))"
    and "list_all is_space ws1"
    and "list_all is_space ws2"
    and "\<not> is_space (hd (payload @ ws2 @ ''```''))"
    and "\<forall>k<length payload. \<not> prefix ''```''
        (dropWhile is_space (drop k payload @ ws2 @ ''```'' @ post))"
  shows "FindStringSubmatch jsonRegex (pre @ ''```json'' @ ws1 @ payload @ ws2 @ ''```'' @ post) =
     [''```json'' @ ws1 @ payload @ ws2 @ ''```'', payload]"
proof -
  have s1: "substring (pre @ ''```json'' @ ws1 @ payload @ ws2 @ ''```'' @ post) (length pre)
        (length pre + length (''```json'' @ ws1 @ payload @ ws2 @ ''```'')) =
      ''```json'' @ ws1 @ payload @ ws2 @ ''```''"
    using substring_mid [of pre "''```json'' @ ws1 @ payload @ ws2 @ ''```''" post] by simp
  have s2: "substring (pre @ ''```json'' @ ws1 @ payload @ ws2 @ ''```'' @ post)
        (length (pre @ ''```json'' @ ws1)) (length (pre @ ''```json'' @ ws1) + length payload) =
      payload"
    using substring_mid [of "pre @ ''```json'' @ ws1" payload "ws2 @ ''```'' @ post"] by simp
  show ?thesis
    unfolding FindStringSubmatch_def rx_capture [OF assms]
    by (simp only: option.case prod.case list.case s1 s2)
qed

lemma FindStringSubmatch_absent:
  "\<not> Contains text ''```json'' \<Longrightarrow> FindStringSubmatch jsonRegex text = []"
  by (simp add: FindStringSubmatch_def jsonRegex_def rx_find_absent)

lemma jsonStr_absent: "\<not> Contains text ''```json'' \<Longrightarrow> jsonStr text = text"
  by (simp add: jsonStr_def FindStringSubmatch_absent)


subsection \<open>The payload of a fenced text\<close>

lemma jsonStr_fence:
  assumes "\<forall>k<length pre. \<not> prefix ''```json''
        (drop k (pre @ ''```json'' @ ws1 @ payload @ ws2 @ ''```'' @ post))"
    and "list_all is_space ws1"
    and "list_all is_space ws2"
    and "\<not> is_space (hd (payload @ ws2 @ ''```''))"
    and "\<forall>k<length payload. \<not> prefix ''```''
        (dropWhile is_space (drop k payload @ ws2 @ ''```'' @ post))"
  shows "jsonStr (pre @ ''```json'' @ ws1 @ payload @ ws2 @ ''```'' @ post) = payload"
  unfolding jsonStr_def FindStringSubmatch_fence [OF assms] by simp

lemma trim_space_split:
  "dropWhile is_space s =
     trim_space s @ rev (takeWhile is_space (rev (dropWhile is_space s)))"
proof -
  define d where "d = dropWhile is_space s"
  have "rev (takeWhile is_space (rev d) @ dropWhile is_space (rev d)) = rev (rev d)"
    by (simp only: takeWhile_dropWhile_id)
  then have "rev (dropWhile is_space (rev d)) @ rev (takeWhile is_space (rev d)) = d"
    by (simp only: rev_append rev_rev_ident)
  then show ?thesis by (simp add: d_def trim_space_def)
qed

lemma jsonStr_wrapped:
  assumes nf: "\<not> Contains s ''```''"
  shows "jsonStr (''```json'' @ [CHR 0x0A] @ s @ [CHR 0x0A] @ ''```'') = trim_space s"
proof -
  define l where "l = takeWhile is_space s"
  define d where "d = dropWhile is_space s"
  define t where "t = trim_space s"
  define r where "r = rev (takeWhile is_space (rev d))"
  have sd: "s = l @ d" by (simp add: l_def d_def)
  have dt: "d = t @ r" unfolding d_def t_def r_def by (rule trim_space_split)
  have spl: "list_all is_space l"
    unfolding l_def list_all_iff by (auto dest: set_takeWhileD)
  have spr: "list_all is_space r"
    unfolding r_def list_all_iff by (auto dest: set_takeWhileD)
  have lf: "is_space (CHR 0x0A)" by (simp add: is_space_def)
  show ?thesis
  proof (cases "t = []")
    case True
    have e: "''```json'' @ [CHR 0x0A] @ s @ [CHR 0x0A] @ ''```'' =
        [] @ ''```json'' @ (CHR 0x0A # l @ r @ [CHR 0x0A]) @ [] @ [] @ ''```'' @ []"
      using sd dt True by simp
    have "jsonStr ([] @ ''```json'' @ (CHR 0x0A # l @ r @ [CHR 0x0A]) @ [] @ [] @ ''```'' @ []) = []"
      by (rule jsonStr_fence) (simp_all add: spl spr lf not_space_backtick)
    then show ?thesis unfolding e using True by (simp add: t_def)
  next
    case False
    with dt have dne: "d \<noteq> []" by simp
    then have "\<not> is_space (hd d)" unfolding d_def by (rule hd_dropWhile)
    with False dt have hdt: "\<not> is_space (hd t)" by simp
    have rt: "rev t = dropWhile is_space (rev d)"
      by (simp add: t_def trim_space_def d_def)
    from False have "dropWhile is_space (rev d) \<noteq> []" unfolding rt [symmetric] by simp
    then have "\<not> is_space (hd (dropWhile is_space (rev d)))" by (rule hd_dropWhile)
    then have lst: "\<not> is_space (last t)" unfolding rt [symmetric] using False by (simp add: hd_rev)
    have nt: "\<not> Contains t ''```''"
    proof
      assume "Contains t ''```''"
      then have "Contains (l @ t @ r) ''```''" by (intro Contains_appendI Contains_appendR)
      with nf sd dt show False by simp
    qed
    have close: "\<forall>k<length t. \<not> prefix ''```''
        (dropWhile is_space (drop k t @ (r @ [CHR 0x0A]) @ ''```'' @ []))"
    proof (intro allI impI)
      fix k assume k: "k < length t"
      show "\<not> prefix ''```''
          (dropWhile is_space (drop k t @ (r @ [CHR 0x0A]) @ ''```'' @ []))"
        by (rule no_early_close [OF nt lst]) (simp_all add: spr lf k)
    qed
    have e: "''```json'' @ [CHR 0x0A] @ s @ [CHR 0x0A] @ ''```'' =
        [] @ ''```json'' @ (CHR 0x0A # l) @ t @ (r @ [CHR 0x0A]) @ ''```'' @ []"
      using sd dt by simp
    have "jsonStr ([] @ ''```json'' @ (CHR 0x0A # l) @ t @ (r @ [CHR 0x0A]) @ ''```'' @ []) = t"
      using close by (rule jsonStr_fence [rotated 4]) (simp_all add: spl spr lf hdt False)
    then show ?thesis unfolding e t_def .
  qed
qed

section \<open>The stages of Verify\<close>

lemma Verify_trace:
  "snd (Verify rt p ctx specContent codeContents) =
     (case json_Marshal rt (Verify_req p specContent codeContents) of
        Inl err \<Rightarrow> []
      | Inr reqBody \<Rightarrow>
          (case ctx of
             None \<Rightarrow> []
           | Some c \<Rightarrow> [Verify_httpReq p c reqBody]))"
  by (simp add: Verify_def Verify_req_def Verify_httpReq_def http_NewRequestWithContext_def
        Let_def split: sum.split option.split)

lemma Verify_sent:
  assumes "snd (Verify rt p ctx specContent codeContents) = [r]"
  obtains reqBody c where
    "json_Marshal rt (Verify_req p specContent codeContents) = Inr reqBody"
    "ctx = Some c" "r = Verify_httpReq p c reqBody"
  using assms unfolding Verify_trace by (auto split: sum.splits option.splits)

lemma parseVerificationResult_jsonStr:
  "parseVerificationResult unmarshal text =
     (case unmarshal (jsonStr text) of
        Inl err \<Rightarrow> Inl (ParseResultFailed err)
      | Inr result \<Rightarrow> Inr result)"
  by (simp add: parseVerificationResult_def jsonStr_def Let_def)

lemma Verify_answered:
  assumes "snd (Verify rt p ctx specContent codeContents) = [r]"
    and "client_Do rt r = Inr resp"
    and "Body resp = Inr body"
  shows "fst (Verify rt p ctx specContent codeContents) =
     (if StatusCode resp \<noteq> 200 then Inl (APIStatusError (StatusCode resp) body)
      else case json_Unmarshal_response rt body of
             Inl err \<Rightarrow> Inl (ParseResponseFailed err)
           | Inr claudeResp \<Rightarrow>
               (case Error claudeResp of
                  Some e \<Rightarrow> Inl (APIError (Message e))
                | None \<Rightarrow>
                    if length (Content claudeResp) = 0 then Inl EmptyResponse
                    else parseVerificationResult (json_Unmarshal_result rt)
                           (Text (Content claudeResp ! 0))))"
proof -
  from assms(1) obtain reqBody c where
    m: "json_Marshal rt (Verify_req p specContent codeContents) = Inr reqBody"
    and c: "ctx = Some c" and r: "r = Verify_httpReq p c reqBody"
    by (rule Verify_sent)
  from m have m': "json_Marshal rt \<lparr>Model = model p, MaxTokens = 2000,
      Messages = [\<lparr>Role = ''user'',
                   MessageContent = buildVerificationPrompt specContent codeContents\<rparr>]\<rparr>
      = Inr reqBody"
    by (simp add: Verify_req_def)
  from assms(2) r have d: "client_Do rt (Header_Set ''anthropic-version'' ''2023-06-01''
       (Header_Set ''x-api-key'' (apiKey p)
         (Header_Set ''Content-Type'' ''application/json''
           \<lparr>Method = ''POST'', URL = claudeAPIURL, Header = Map.empty,
            RequestBody = reqBody, Ctx = c\<rparr>))) = Inr resp"
    by (simp add: Verify_httpReq_def)
  show ?thesis
    by (simp add: Verify_def m' c d assms(3) http_NewRequestWithContext_def Let_def
          split: sum.split option.split)
qed

section \<open>Runs against the canned server\<close>

lemma canned_sent:
  "snd (Verify (canned rp) p (Some c) specContent codeContents) =
     [Verify_httpReq p c (Marshal_claudeRequest (Verify_req p specContent codeContents))]"
  by (simp add: Verify_trace canned_def)

lemma canned_sample_sent:
  "snd (Verify (canned rp) sample_provider (Some ()) ''spec'' []) = [sample_request]"
  by (simp add: canned_sent sample_request_def)

lemma canned_client: "client_Do (canned rp) q = Inr rp"
  by (simp add: canned_def)

lemma canned_response: "json_Unmarshal_response (canned rp) = Unmarshal_claudeResponse"
  by (simp add: canned_def)

lemma canned_result: "json_Unmarshal_result (canned rp) = Unmarshal_VerificationResult"
  by (simp add: canned_def)

lemmas canned_simps = canned_sample_sent canned_client canned_response canned_result

lemmas json_eval =
  is_json_ws_def skip_ws_def scan_fraction_def scan_exponent_def scan_int_def scan_number_def
  byte_in_def utf8_width_def replacement_char_def utf8_encode_def is_hex_def getu4_def
  unescape_def maxNestingDepth_def parse_json_def names_field_def decode_string_def
  digits_value_def parse_int64_def decode_int_def decode_slice_def decode_result_field_def
  Unmarshal_VerificationResult_def decode_block_field_def decode_block_def
  decode_error_field_def decode_error_pointer_def decode_response_field_def
  Unmarshal_claudeResponse_def is_digit_def is_lower_def is_upper_def hexval_def Let_def
  envelope_def quote_def hexdigit_def



lemma decode_fenced_body:
  "Unmarshal_claudeResponse (envelope (fence_json result_json)) =
     Inr \<lparr>Content = [\<lparr>BlockType = ''text'', Text = fence_json result_json\<rparr>], Error = None\<rparr>"
  by (simp add: json_eval fence_json_def result_json_def)

lemma decode_truncated_body:
  "Unmarshal_claudeResponse (envelope truncated_json) =
     Inr \<lparr>Content = [\<lparr>BlockType = ''text'', Text = truncated_json\<rparr>], Error = None\<rparr>"
  by (simp add: json_eval truncated_json_def)


lemma decode_result_json: "Unmarshal_VerificationResult result_json = Inr sample_result"
  by (simp add: json_eval result_json_def sample_result_def)

lemma decode_padded_json: "Unmarshal_VerificationResult padded_json = Inr sample_result"
  by (simp add: json_eval padded_json_def result_json_def sample_result_def)

lemma decode_truncated_json: "Unmarshal_VerificationResult truncated_json = Inl syntax_error"
  by (simp add: json_eval truncated_json_def)




lemma result_json_shape:
  "result_json \<noteq> []" "\<not> is_space (hd result_json)" "\<not> is_space (last result_json)"
  "last result_json \<noteq> CHR 0x60" "\<not> Contains result_json ''```''"
  by (simp_all add: result_json_def is_space_def)

lemma trim_padded_json: "trim_space padded_json = result_json"
  by (simp add: trim_space_def padded_json_def result_json_def is_space_def)

lemma padded_json_no_fence: "\<not> Contains padded_json ''```''"
  by (simp add: padded_json_def result_json_def)

lemma jsonStr_fenced_result: "jsonStr (fence_json result_json) = result_json"
  using jsonStr_wrapped [of result_json] result_json_shape(5)
  by (simp add: fence_json_def trim_space_def result_json_def is_space_def)

lemma jsonStr_truncated_json: "jsonStr truncated_json = truncated_json"
  by (rule jsonStr_absent) (simp add: truncated_json_def)





lemma Itoa_500: "Itoa 500 = ''500''"
  by code_simp

section \<open>Properties of Verify\<close>

text \<open>
  In the theorems of this section a call of \<open>Verify\<close> has sent the request \<open>r\<close>, the
  HTTP client has answered it with the response \<open>resp\<close>, and the body of that response
  was read in full as \<open>body\<close>.
\<close>

text \<open>
  C9. The one request that \<open>Verify\<close> hands to the HTTP client, for a provider built by
  \<open>NewClaudeProvider\<close> from the credential \<open>key\<close>: a \<^verbatim>\<open>POST\<close> to
  \<^verbatim>\<open>https://api.anthropic.com/v1/messages\<close> with exactly the three headers
  \<^verbatim>\<open>Content-Type: application/json\<close>, \<^verbatim>\<open>x-api-key\<close> with the credential and
  \<^verbatim>\<open>anthropic-version: 2023-06-01\<close>, under the canonical spelling that
  \<^verbatim>\<open>Header.Set\<close> gives their names, and with the body that the JSON encoder returns
  for the fixed model identifier, \<^verbatim>\<open>max_tokens\<close> 2000 and the single message of role
  \<^verbatim>\<open>user\<close> whose content is the rendered prompt. No request is sent when the encoder
  fails or the context is \<^verbatim>\<open>nil\<close>, and never more than one.
\<close>

theorem Verify_outbound_request:
  assumes "NewClaudeProvider key = Inr p"
  shows "snd (Verify rt p ctx specContent codeContents) =
     (case json_Marshal rt
             \<lparr>Model = ''claude-sonnet-4-20250514'', MaxTokens = 2000,
              Messages = [\<lparr>Role = ''user'',
                  MessageContent = buildVerificationPrompt specContent codeContents\<rparr>]\<rparr> of
        Inl err \<Rightarrow> []
      | Inr reqBody \<Rightarrow>
          (case ctx of
             None \<Rightarrow> []
           | Some c \<Rightarrow>
               [\<lparr>Method = ''POST'', URL = ''https://api.anthropic.com/v1/messages'',
                 Header = [''Content-Type'' \<mapsto> [''application/json''],
                           ''X-Api-Key'' \<mapsto> [key],
                           ''Anthropic-Version'' \<mapsto> [''2023-06-01'']],
                 RequestBody = reqBody, Ctx = c\<rparr>]))"
proof -
  have k1: "CanonicalMIMEHeaderKey ''Content-Type'' = ''Content-Type''"
    by code_simp
  have k2: "CanonicalMIMEHeaderKey ''x-api-key'' = ''X-Api-Key''"
    by code_simp
  have k3: "CanonicalMIMEHeaderKey ''anthropic-version'' = ''Anthropic-Version''"
    by code_simp
  from assms have p: "p = \<lparr>apiKey = key, model = ''claude-sonnet-4-20250514''\<rparr>"
    by (simp add: NewClaudeProvider_def split: if_splits)
  show ?thesis
    by (simp add: Verify_trace Verify_req_def Verify_httpReq_def Header_Set_def k1 k2 k3 p
          claudeAPIURL_def split: sum.split option.split)
qed

theorem Verify_outbound_request_witness:
  "NewClaudeProvider ''sk-test'' = Inr sample_provider \<and>
   snd (Verify (canned (reply 200 empty_body)) sample_provider (Some ()) ''spec'' []) =
     [\<lparr>Method = ''POST'', URL = ''https://api.anthropic.com/v1/messages'',
       Header = [''Content-Type'' \<mapsto> [''application/json''],
                 ''X-Api-Key'' \<mapsto> [''sk-test''],
                 ''Anthropic-Version'' \<mapsto> [''2023-06-01'']],
       RequestBody =
         Marshal_claudeRequest
           \<lparr>Model = ''claude-sonnet-4-20250514'', MaxTokens = 2000,
            Messages = [\<lparr>Role = ''user'',
                         MessageContent = buildVerificationPrompt ''spec'' []\<rparr>]\<rparr>,
       Ctx = ()\<rparr>]"
proof -
  have a: "NewClaudeProvider ''sk-test'' = Inr sample_provider"
    by (simp add: NewClaudeProvider_def sample_provider_def)
  show ?thesis
    using Verify_outbound_request [OF a, of "canned (reply 200 empty_body)" "Some ()" "''spec''" "[]"]
    by (simp add: a canned_def)
qed

text \<open>
  C3. A response with status 200 whose body decodes as an envelope with no error field
  takes \<open>Verify\<close> on to the content: the outcome is that of the extraction from the text
  of the first content block, or the error for an empty content list. A response with any
  other status makes \<open>Verify\<close> fail with an error whose message contains the decimal
  status code and the body as it was read, and no result is returned.
\<close>

theorem Verify_status:
  assumes "snd (Verify rt p ctx specContent codeContents) = [r]"
    and "client_Do rt r = Inr resp"
    and "Body resp = Inr body"
  shows "(StatusCode resp = 200 \<and> json_Unmarshal_response rt body = Inr claudeResp \<and>
            Error claudeResp = None \<longrightarrow>
            fst (Verify rt p ctx specContent codeContents) =
              (if Content claudeResp = [] then Inl EmptyResponse
               else parseVerificationResult (json_Unmarshal_result rt)
                      (Text (hd (Content claudeResp))))) \<and>
         (StatusCode resp \<noteq> 200 \<longrightarrow>
            fst (Verify rt p ctx specContent codeContents) =
              Inl (APIStatusError (StatusCode resp) body) \<and>
            Contains (error_message (APIStatusError (StatusCode resp) body))
              (Itoa (StatusCode resp)) \<and>
            Contains (error_message (APIStatusError (StatusCode resp) body)) body)"
proof -
  have a: "Contains (''API error (status '' @ Itoa (StatusCode resp) @ ''): '' @ body)
             (Itoa (StatusCode resp))"
    by (rule Contains_append)
  have b: "Contains ((''API error (status '' @ Itoa (StatusCode resp) @ ''): '') @ body @ []) body"
    by (rule Contains_append)
  show ?thesis
    using a b by (cases "Content claudeResp") (simp_all add: Verify_answered [OF assms])
qed

theorem Verify_status_witness:
  "snd (Verify (canned (reply 200 (envelope (fence_json result_json)))) sample_provider
          (Some ()) ''spec'' []) = [sample_request] \<and>
   client_Do (canned (reply 200 (envelope (fence_json result_json)))) sample_request =
     Inr (reply 200 (envelope (fence_json result_json))) \<and>
   Body (reply 200 (envelope (fence_json result_json))) =
     Inr (envelope (fence_json result_json)) \<and>
   StatusCode (reply 200 (envelope (fence_json result_json))) = 200 \<and>
   json_Unmarshal_response (canned (reply 200 (envelope (fence_json result_json))))
       (envelope (fence_json result_json)) =
     Inr \<lparr>Content = [\<lparr>BlockType = ''text'', Text = fence_json result_json\<rparr>], Error = None\<rparr> \<and>
   fst (Verify (canned (reply 200 (envelope (fence_json result_json)))) sample_provider
          (Some ()) ''spec'' []) =
     parseVerificationResult Unmarshal_VerificationResult (fence_json result_json) \<and>
   snd (Verify (canned (reply 500 ''oops'')) sample_provider (Some ()) ''spec'' []) =
     [sample_request] \<and>
   client_Do (canned (reply 500 ''oops'')) sample_request = Inr (reply 500 ''oops'') \<and>
   Body (reply 500 ''oops'') = Inr ''oops'' \<and>
   StatusCode (reply 500 ''oops'') \<noteq> 200 \<and>
   fst (Verify (canned (reply 500 ''oops'')) sample_provider (Some ()) ''spec'' []) =
     Inl (APIStatusError 500 ''oops'') \<and>
   Contains (error_message (APIStatusError 500 ''oops'')) ''500'' \<and>
   Contains (error_message (APIStatusError 500 ''oops'')) ''oops''"
proof -
  let ?ok = "reply 200 (envelope (fence_json result_json))"
  let ?bad = "reply 500 ''oops''"
  have a1: "snd (Verify (canned ?ok) sample_provider (Some ()) ''spec'' []) = [sample_request]"
    by (rule canned_sample_sent)
  have a2: "client_Do (canned ?ok) sample_request = Inr ?ok"
    by (rule canned_client)
  have a3: "Body ?ok = Inr (envelope (fence_json result_json))"
    by (simp add: reply_def)
  have a4: "StatusCode ?ok = 200"
    by (simp add: reply_def)
  have a5: "json_Unmarshal_response (canned ?ok) (envelope (fence_json result_json)) =
     Inr \<lparr>Content = [\<lparr>BlockType = ''text'', Text = fence_json result_json\<rparr>], Error = None\<rparr>"
    by (simp only: canned_response decode_fenced_body)
  have b1: "snd (Verify (canned ?bad) sample_provider (Some ()) ''spec'' []) = [sample_request]"
    by (rule canned_sample_sent)
  have b2: "client_Do (canned ?bad) sample_request = Inr ?bad"
    by (rule canned_client)
  have b3: "Body ?bad = Inr ''oops''"
    by (simp add: reply_def)
  have b4: "StatusCode ?bad \<noteq> 200"
    by (simp add: reply_def)
  have b4': "StatusCode ?bad = 500"
    by (simp add: reply_def)
  have c1: "fst (Verify (canned ?ok) sample_provider (Some ()) ''spec'' []) =
     parseVerificationResult Unmarshal_VerificationResult (fence_json result_json)"
    using Verify_status [OF a1 a2 a3,
        of "\<lparr>Content = [\<lparr>BlockType = ''text'', Text = fence_json result_json\<rparr>], Error = None\<rparr>"]
      a4 a5
    by (simp add: canned_result)
  have c2: "fst (Verify (canned ?bad) sample_provider (Some ()) ''spec'' []) =
       Inl (APIStatusError 500 ''oops'') \<and>
     Contains (error_message (APIStatusError 500 ''oops'')) ''500'' \<and>
     Contains (error_message (APIStatusError 500 ''oops'')) ''oops''"
    using Verify_status [OF b1 b2 b3] b4
    by (simp only: b4' Itoa_500 simp_thms)
  show ?thesis
    using a1 a2 a3 a4 a5 b1 b2 b3 b4 c1 c2 by (intro conjI) simp_all
qed

text \<open>
  Status 201 is a success status as well. The body that gives a result under status 200
  gives the status error under 201.
\<close>

theorem Verify_status_201:
  "fst (Verify (canned (reply 200 (envelope (fence_json result_json)))) sample_provider
          (Some ()) ''spec'' []) = Inr sample_result \<and>
   fst (Verify (canned (reply 201 (envelope (fence_json result_json)))) sample_provider
          (Some ()) ''spec'' []) =
     Inl (APIStatusError 201 (envelope (fence_json result_json)))"
proof -
  have ok: "fst (Verify (canned (reply 200 (envelope (fence_json result_json)))) sample_provider
          (Some ()) ''spec'' []) = Inr sample_result"
    using Verify_answered [OF canned_sample_sent canned_client,
        of "reply 200 (envelope (fence_json result_json))" "envelope (fence_json result_json)"]
    by (simp add: reply_def canned_response canned_result decode_fenced_body
          parseVerificationResult_jsonStr jsonStr_fenced_result decode_result_json)
  have created: "fst (Verify (canned (reply 201 (envelope (fence_json result_json))))
          sample_provider (Some ()) ''spec'' []) =
     Inl (APIStatusError 201 (envelope (fence_json result_json)))"
    using Verify_answered [OF canned_sample_sent canned_client,
        of "reply 201 (envelope (fence_json result_json))" "envelope (fence_json result_json)"]
    by (simp add: reply_def)
  from ok created show ?thesis by (rule conjI)
qed





text \<open>
  C8. When the response has status 200, its body decodes as an envelope with no error
  field and at least one content block, and the decoder rejects the payload extracted
  from the text of the first block, \<open>Verify\<close> fails with the error
  \<^verbatim>\<open>failed to parse verification result\<close> that wraps the decoder's error. The outcome is
  that error alone: no result, whole or partial, comes with it.
\<close>

theorem Verify_malformed_payload:
  assumes "snd (Verify rt p ctx specContent codeContents) = [r]"
    and "client_Do rt r = Inr resp"
    and "Body resp = Inr body"
    and "StatusCode resp = 200"
    and "json_Unmarshal_response rt body = Inr claudeResp"
    and "Error claudeResp = None"
    and "Content claudeResp = b # bs"
    and "json_Unmarshal_result rt (jsonStr (Text b)) = Inl err"
  shows "fst (Verify rt p ctx specContent codeContents) = Inl (ParseResultFailed err) \<and>
         error_message (ParseResultFailed err) = ''failed to parse verification result: '' @ err"
  using assms by (simp add: Verify_answered parseVerificationResult_jsonStr)

theorem Verify_malformed_payload_witness:
  "snd (Verify (canned (reply 200 (envelope truncated_json))) sample_provider (Some ())
          ''spec'' []) = [sample_request] \<and>
   client_Do (canned (reply 200 (envelope truncated_json))) sample_request =
     Inr (reply 200 (envelope truncated_json)) \<and>
   Body (reply 200 (envelope truncated_json)) = Inr (envelope truncated_json) \<and>
   StatusCode (reply 200 (envelope truncated_json)) = 200 \<and>
   json_Unmarshal_response (canned (reply 200 (envelope truncated_json)))
       (envelope truncated_json) =
     Inr \<lparr>Content = [\<lparr>BlockType = ''text'', Text = truncated_json\<rparr>], Error = None\<rparr> \<and>
   json_Unmarshal_result (canned (reply 200 (envelope truncated_json)))
       (jsonStr truncated_json) = Inl syntax_error \<and>
   fst (Verify (canned (reply 200 (envelope truncated_json))) sample_provider (Some ())
          ''spec'' []) = Inl (ParseResultFailed syntax_error)"
proof -
  let ?rp = "reply 200 (envelope truncated_json)"
  let ?b = "\<lparr>BlockType = ''text'', Text = truncated_json\<rparr>"
  let ?env = "\<lparr>Content = [?b], Error = None\<rparr>"
  have a1: "snd (Verify (canned ?rp) sample_provider (Some ()) ''spec'' []) = [sample_request]"
    by (rule canned_sample_sent)
  have a2: "client_Do (canned ?rp) sample_request = Inr ?rp"
    by (rule canned_client)
  have a3: "Body ?rp = Inr (envelope truncated_json)"
    by (simp add: reply_def)
  have a4: "StatusCode ?rp = 200"
    by (simp add: reply_def)
  have a5: "json_Unmarshal_response (canned ?rp) (envelope truncated_json) = Inr ?env"
    by (simp only: canned_response decode_truncated_body)
  have a6: "Error ?env = None"
    by simp
  have a7: "Content ?env = ?b # []"
    by simp
  have a8': "json_Unmarshal_result (canned ?rp) (jsonStr truncated_json) = Inl syntax_error"
    by (simp only: canned_result jsonStr_truncated_json decode_truncated_json)
  then have a8: "json_Unmarshal_result (canned ?rp) (jsonStr (Text ?b)) = Inl syntax_error"
    by simp
  have c: "fst (Verify (canned ?rp) sample_provider (Some ()) ''spec'' []) =
       Inl (ParseResultFailed syntax_error)"
    using Verify_malformed_payload [OF a1 a2 a3 a4 a5 a6 a7 a8] by simp
  show ?thesis
    using a1 a2 a3 a4 a5 a8' c by (intro conjI) simp_all
qed






section \<open>Properties of result extraction\<close>

text \<open>
  C2. The fence is optional. For a text \<open>s\<close> that the decoder accepts and that holds no
  triple backtick, extraction on \<open>s\<close> gives the decoder's result, and extraction on
  \<open>s\<close> between the lines \<^verbatim>\<open>```json\<close> and \<^verbatim>\<open>```\<close> gives the same. The decoder is
  any function that reads \<open>s\<close> as it reads \<open>s\<close> without the white space around it, as a
  JSON decoder does.
\<close>

theorem fence_optional:
  assumes "unmarshal s = Inr result"
    and "\<not> Contains s ''```''"
    and "unmarshal (trim_space s) = unmarshal s"
  shows "parseVerificationResult unmarshal s = Inr result \<and>
         parseVerificationResult unmarshal (''```json'' @ [CHR 0x0A] @ s @ [CHR 0x0A] @ ''```'') =
           parseVerificationResult unmarshal s"
proof -
  have "\<not> Contains s (''```'' @ ''json'')"
    using assms(2) Contains_shorter by blast
  then have "\<not> Contains s ''```json''"
    by simp
  then have plain: "jsonStr s = s"
    by (rule jsonStr_absent)
  have fenced: "jsonStr (''```json'' @ [CHR 0x0A] @ s @ [CHR 0x0A] @ ''```'') = trim_space s"
    using assms(2) by (rule jsonStr_wrapped)
  show ?thesis
    by (simp only: parseVerificationResult_jsonStr plain fenced assms(1) assms(3) sum.case simp_thms)
qed

theorem fence_optional_witness:
  "Unmarshal_VerificationResult padded_json = Inr sample_result \<and>
   \<not> Contains padded_json ''```'' \<and>
   Unmarshal_VerificationResult (trim_space padded_json) =
     Unmarshal_VerificationResult padded_json \<and>
   parseVerificationResult Unmarshal_VerificationResult padded_json = Inr sample_result \<and>
   parseVerificationResult Unmarshal_VerificationResult
       (''```json'' @ [CHR 0x0A] @ padded_json @ [CHR 0x0A] @ ''```'') =
     Inr sample_result"
proof -
  have a3: "Unmarshal_VerificationResult (trim_space padded_json) =
      Unmarshal_VerificationResult padded_json"
    by (simp only: trim_padded_json decode_result_json decode_padded_json)
  have c: "parseVerificationResult Unmarshal_VerificationResult padded_json = Inr sample_result \<and>
      parseVerificationResult Unmarshal_VerificationResult
          (''```json'' @ [CHR 0x0A] @ padded_json @ [CHR 0x0A] @ ''```'') =
        parseVerificationResult Unmarshal_VerificationResult padded_json"
    using decode_padded_json padded_json_no_fence a3 by (rule fence_optional)
  then have c2: "parseVerificationResult Unmarshal_VerificationResult
          (''```json'' @ [CHR 0x0A] @ padded_json @ [CHR 0x0A] @ ''```'') = Inr sample_result"
    by simp
  from c have c1: "parseVerificationResult Unmarshal_VerificationResult padded_json =
      Inr sample_result"
    by simp
  show ?thesis
    by (intro conjI decode_padded_json padded_json_no_fence a3 c1 c2)
qed




end
